(* ===== verification/Prelude.thy ===== *)
theory Prelude
  imports Main "HOL-Library.Word"
begin

text \<open>
  Shared vocabulary of the development: the types that name the model's data (prime-field
  residues, 64-bit limbs), the lemma collections the component theories extend, and the
  generic facts on \<open>mod\<close>, lists and words that the component proofs share.
\<close>

section \<open>Types of the model\<close>

text \<open>A prime-field element \<open>Fq\<close>/\<open>Fr\<close> is kept as its canonical residue, an \<open>int\<close>
  in \<open>[0, q)\<close>; a limb of a big integer is a Rust \<open>u64\<close>.\<close>

type_synonym fq = int
type_synonym u64 = "64 word"

named_theorems residue_simps "facts about canonical residues, used by the tower proofs"
named_theorems curve_consts "unfoldings of the concrete curve constants"

section \<open>Residues\<close>

lemma mod_range [residue_simps]:
  fixes q x :: int
  assumes "0 < q"
  shows "0 \<le> x mod q \<and> x mod q < q"
  using assms by simp

lemma mod_mult_cong_left:
  fixes a b c q :: int
  assumes "a mod q = b mod q"
  shows "(a * c) mod q = (b * c) mod q"
  by (metis assms mod_mult_left_eq)

lemma mod_mult_cong_right:
  fixes a b c q :: int
  assumes "a mod q = b mod q"
  shows "(c * a) mod q = (c * b) mod q"
  by (metis assms mod_mult_right_eq)

section \<open>Limbs\<close>

lemma unat_u64_less [simp]: "unat (w :: u64) < 18446744073709551616"
  using unsigned_less [of w] by simp

section \<open>Positional sums\<close>

text \<open>A little-endian digit sequence in base \<open>B\<close> denotes \<open>d\<^sub>0 + B * (d\<^sub>1 + B * \<dots>)\<close>.\<close>

lemma foldr_digits_bound:
  fixes B :: nat
  assumes "\<forall>d \<in> set ds. d < B"
  shows "foldr (\<lambda>d acc. d + B * acc) ds 0 < B ^ length ds"
  using assms
proof (induction ds)
  case Nil
  then show ?case by simp
next
  case (Cons d ds)
  then have d: "d < B" and IH: "foldr (\<lambda>d acc. d + B * acc) ds 0 < B ^ length ds"
    by simp_all
  then have "foldr (\<lambda>d acc. d + B * acc) ds 0 + 1 \<le> B ^ length ds" by simp
  then have "B * (foldr (\<lambda>d acc. d + B * acc) ds 0 + 1) \<le> B * B ^ length ds"
    by (rule mult_le_mono2)
  with d show ?case by (simp add: algebra_simps)
qed

end
