(* ===== verification/Field_Tower.thy ===== *)
theory Field_Tower
  imports Prelude
begin

text \<open>
  The field tower the curve configurations are written over (external to the sources: the
  crate's \<open>fields\<close> module and ark-ff's \<open>Fp\<close>, \<open>QuadExtField\<close> and \<open>CubicExtField\<close>).
  A prime-field element is its canonical residue; an extension element is the tuple of its
  coefficients in the basis \<open>1, x(, x\<^sup>2)\<close> of \<open>Fq[x]/(x\<^sup>n - \<beta>)\<close>, with the non-residue
  \<open>\<beta>\<close> fixed per tower.  The tower multiplication is shown to be the multiplication of
  the quotient ring, stated on coefficient lists (\<open>tower_mul\<close>).
\<close>

section \<open>The prime field\<close>

record ext_params =
  modulus :: int
  nonresidue :: fq

definition fq_canon :: "int \<Rightarrow> fq \<Rightarrow> bool" where
  "fq_canon q x \<longleftrightarrow> 0 \<le> x \<and> x < q"

definition fq_mul :: "int \<Rightarrow> fq \<Rightarrow> fq \<Rightarrow> fq" where
  "fq_mul q x y = (x * y) mod q"

section \<open>Quadratic extension \<open>Fq2 = Fq[x]/(x\<^sup>2 - \<beta>)\<close>\<close>

datatype fq2 = Fq2 (fq2_c0: fq) (fq2_c1: fq)

fun fq2_add :: "ext_params \<Rightarrow> fq2 \<Rightarrow> fq2 \<Rightarrow> fq2" where
  "fq2_add P (Fq2 a0 a1) (Fq2 b0 b1) = Fq2 ((a0 + b0) mod modulus P) ((a1 + b1) mod modulus P)"

fun fq2_mul :: "ext_params \<Rightarrow> fq2 \<Rightarrow> fq2 \<Rightarrow> fq2" where
  "fq2_mul P (Fq2 a0 a1) (Fq2 b0 b1) =
     Fq2 ((a0 * b0 + nonresidue P * (a1 * b1)) mod modulus P)
         ((a0 * b1 + a1 * b0) mod modulus P)"

fun fq2_neg :: "ext_params \<Rightarrow> fq2 \<Rightarrow> fq2" where
  "fq2_neg P (Fq2 a0 a1) = Fq2 ((- a0) mod modulus P) ((- a1) mod modulus P)"

fun fq2_canon :: "ext_params \<Rightarrow> fq2 \<Rightarrow> bool" where
  "fq2_canon P (Fq2 a0 a1) \<longleftrightarrow> fq_canon (modulus P) a0 \<and> fq_canon (modulus P) a1"

fun fq2_coeffs :: "fq2 \<Rightarrow> int list" where
  "fq2_coeffs (Fq2 a0 a1) = [a0, a1]"

section \<open>Cubic extension \<open>Fq3 = Fq[x]/(x\<^sup>3 - \<beta>)\<close>\<close>

datatype fq3 = Fq3 (fq3_c0: fq) (fq3_c1: fq) (fq3_c2: fq)

fun fq3_add :: "ext_params \<Rightarrow> fq3 \<Rightarrow> fq3 \<Rightarrow> fq3" where
  "fq3_add P (Fq3 a0 a1 a2) (Fq3 b0 b1 b2) =
     Fq3 ((a0 + b0) mod modulus P) ((a1 + b1) mod modulus P) ((a2 + b2) mod modulus P)"

fun fq3_mul :: "ext_params \<Rightarrow> fq3 \<Rightarrow> fq3 \<Rightarrow> fq3" where
  "fq3_mul P (Fq3 a0 a1 a2) (Fq3 b0 b1 b2) =
     Fq3 ((a0 * b0 + nonresidue P * (a1 * b2 + a2 * b1)) mod modulus P)
         ((a0 * b1 + a1 * b0 + nonresidue P * (a2 * b2)) mod modulus P)
         ((a0 * b2 + a1 * b1 + a2 * b0) mod modulus P)"

fun fq3_neg :: "ext_params \<Rightarrow> fq3 \<Rightarrow> fq3" where
  "fq3_neg P (Fq3 a0 a1 a2) =
     Fq3 ((- a0) mod modulus P) ((- a1) mod modulus P) ((- a2) mod modulus P)"

fun fq3_canon :: "ext_params \<Rightarrow> fq3 \<Rightarrow> bool" where
  "fq3_canon P (Fq3 a0 a1 a2) \<longleftrightarrow>
     fq_canon (modulus P) a0 \<and> fq_canon (modulus P) a1 \<and> fq_canon (modulus P) a2"

fun fq3_coeffs :: "fq3 \<Rightarrow> int list" where
  "fq3_coeffs (Fq3 a0 a1 a2) = [a0, a1, a2]"

section \<open>Abstract specification: multiplication in \<open>Fq[x]/(x\<^sup>n - \<beta>)\<close>\<close>

text \<open>Coefficient \<open>k\<close> of the product of two polynomials of degree below \<open>n\<close>, after the
  reduction \<open>x\<^sup>n = \<beta>\<close>: the products \<open>a\<^sub>i b\<^sub>j\<close> with \<open>i + j = k\<close>, plus \<open>\<beta>\<close> times those
  with \<open>i + j = k + n\<close>.\<close>

definition tower_coeff :: "int \<Rightarrow> int \<Rightarrow> int list \<Rightarrow> int list \<Rightarrow> nat \<Rightarrow> int" where
  "tower_coeff q \<beta> as bs k =
     (\<Sum>i<length as. \<Sum>j<length as.
        if i + j = k then as ! i * bs ! j
        else if i + j = k + length as then \<beta> * (as ! i * bs ! j) else 0) mod q"

definition tower_mul :: "int \<Rightarrow> int \<Rightarrow> int list \<Rightarrow> int list \<Rightarrow> int list" where
  "tower_mul q \<beta> as bs = map (tower_coeff q \<beta> as bs) [0..<length as]"

section \<open>Unreduced arithmetic\<close>

text \<open>The same products and sums before the reduction modulo \<open>q\<close>, and the reduction of
  each coefficient: the ring laws of the towers are the polynomial identities of the
  unreduced operations, carried through the reduction.\<close>

fun fq2_reduce :: "int \<Rightarrow> fq2 \<Rightarrow> fq2" where
  "fq2_reduce q (Fq2 a0 a1) = Fq2 (a0 mod q) (a1 mod q)"

fun fq2_add_raw :: "fq2 \<Rightarrow> fq2 \<Rightarrow> fq2" where
  "fq2_add_raw (Fq2 a0 a1) (Fq2 b0 b1) = Fq2 (a0 + b0) (a1 + b1)"

fun fq2_mul_raw :: "int \<Rightarrow> fq2 \<Rightarrow> fq2 \<Rightarrow> fq2" where
  "fq2_mul_raw \<beta> (Fq2 a0 a1) (Fq2 b0 b1) = Fq2 (a0 * b0 + \<beta> * (a1 * b1)) (a0 * b1 + a1 * b0)"

fun fq3_reduce :: "int \<Rightarrow> fq3 \<Rightarrow> fq3" where
  "fq3_reduce q (Fq3 a0 a1 a2) = Fq3 (a0 mod q) (a1 mod q) (a2 mod q)"

fun fq3_add_raw :: "fq3 \<Rightarrow> fq3 \<Rightarrow> fq3" where
  "fq3_add_raw (Fq3 a0 a1 a2) (Fq3 b0 b1 b2) = Fq3 (a0 + b0) (a1 + b1) (a2 + b2)"

fun fq3_mul_raw :: "int \<Rightarrow> fq3 \<Rightarrow> fq3 \<Rightarrow> fq3" where
  "fq3_mul_raw \<beta> (Fq3 a0 a1 a2) (Fq3 b0 b1 b2) =
     Fq3 (a0 * b0 + \<beta> * (a1 * b2 + a2 * b1)) (a0 * b1 + a1 * b0 + \<beta> * (a2 * b2))
         (a0 * b2 + a1 * b1 + a2 * b0)"

section \<open>Lemmas\<close>

lemma fq_canon_mod [residue_simps]: "0 < q \<Longrightarrow> fq_canon q (x mod q)"
  by (simp add: fq_canon_def)

lemma fq2_mul_tower:
  "fq2_coeffs (fq2_mul P a b) = tower_mul (modulus P) (nonresidue P) (fq2_coeffs a) (fq2_coeffs b)"
  by (cases a; cases b)
    (simp add: tower_mul_def tower_coeff_def numeral_eq_Suc lessThan_Suc upt_rec algebra_simps)

lemma fq3_mul_tower:
  "fq3_coeffs (fq3_mul P a b) = tower_mul (modulus P) (nonresidue P) (fq3_coeffs a) (fq3_coeffs b)"
  by (cases a; cases b)
    (simp add: tower_mul_def tower_coeff_def numeral_eq_Suc lessThan_Suc upt_rec algebra_simps)

subsection \<open>Ring laws of the towers\<close>

lemma fq2_ops_reduce:
  "fq2_mul P a b = fq2_reduce (modulus P) (fq2_mul_raw (nonresidue P) a b)"
  "fq2_add P a b = fq2_reduce (modulus P) (fq2_add_raw a b)"
  by (cases a; cases b; simp)+

lemma fq3_ops_reduce:
  "fq3_mul P a b = fq3_reduce (modulus P) (fq3_mul_raw (nonresidue P) a b)"
  "fq3_add P a b = fq3_reduce (modulus P) (fq3_add_raw a b)"
  by (cases a; cases b; simp)+

text \<open>Reducing an argument first does not change the reduced result.\<close>

lemma fq2_reduce_args:
  "fq2_reduce q (fq2_mul_raw \<beta> (fq2_reduce q a) b) = fq2_reduce q (fq2_mul_raw \<beta> a b)"
  "fq2_reduce q (fq2_mul_raw \<beta> a (fq2_reduce q b)) = fq2_reduce q (fq2_mul_raw \<beta> a b)"
  "fq2_reduce q (fq2_add_raw (fq2_reduce q a) b) = fq2_reduce q (fq2_add_raw a b)"
  "fq2_reduce q (fq2_add_raw a (fq2_reduce q b)) = fq2_reduce q (fq2_add_raw a b)"
  by (cases a; cases b; simp; intro conjI mod_add_cong mod_mult_cong; simp)+

lemma fq3_reduce_args:
  "fq3_reduce q (fq3_mul_raw \<beta> (fq3_reduce q a) b) = fq3_reduce q (fq3_mul_raw \<beta> a b)"
  "fq3_reduce q (fq3_mul_raw \<beta> a (fq3_reduce q b)) = fq3_reduce q (fq3_mul_raw \<beta> a b)"
  "fq3_reduce q (fq3_add_raw (fq3_reduce q a) b) = fq3_reduce q (fq3_add_raw a b)"
  "fq3_reduce q (fq3_add_raw a (fq3_reduce q b)) = fq3_reduce q (fq3_add_raw a b)"
  by (cases a; cases b; simp; intro conjI mod_add_cong mod_mult_cong; simp)+

lemma fq2_raw_laws:
  "fq2_mul_raw \<beta> (fq2_mul_raw \<beta> a b) c = fq2_mul_raw \<beta> a (fq2_mul_raw \<beta> b c)"
  "fq2_mul_raw \<beta> a b = fq2_mul_raw \<beta> b a"
  "fq2_mul_raw \<beta> a (fq2_add_raw b c) = fq2_add_raw (fq2_mul_raw \<beta> a b) (fq2_mul_raw \<beta> a c)"
  by (cases a; cases b; cases c; simp add: algebra_simps)+

lemma fq3_raw_laws:
  "fq3_mul_raw \<beta> (fq3_mul_raw \<beta> a b) c = fq3_mul_raw \<beta> a (fq3_mul_raw \<beta> b c)"
  "fq3_mul_raw \<beta> a b = fq3_mul_raw \<beta> b a"
  "fq3_mul_raw \<beta> a (fq3_add_raw b c) = fq3_add_raw (fq3_mul_raw \<beta> a b) (fq3_mul_raw \<beta> a c)"
  by (cases a; cases b; cases c; simp add: algebra_simps)+

lemmas tower_reduce_simps = fq2_ops_reduce fq3_ops_reduce fq2_reduce_args fq3_reduce_args

lemma fq2_mul_assoc: "fq2_mul P (fq2_mul P a b) c = fq2_mul P a (fq2_mul P b c)"
  by (simp add: tower_reduce_simps fq2_raw_laws(1))

lemma fq2_mul_commute: "fq2_mul P a b = fq2_mul P b a"
  by (simp add: tower_reduce_simps fq2_raw_laws(2) [of _ a])

lemma fq2_mul_add: "fq2_mul P a (fq2_add P b c) = fq2_add P (fq2_mul P a b) (fq2_mul P a c)"
  by (simp add: tower_reduce_simps fq2_raw_laws(3))

lemma fq2_add_mul: "fq2_mul P (fq2_add P a b) c = fq2_add P (fq2_mul P a c) (fq2_mul P b c)"
  by (simp add: fq2_mul_commute [of P _ c] fq2_mul_add)

lemma fq3_mul_assoc: "fq3_mul P (fq3_mul P a b) c = fq3_mul P a (fq3_mul P b c)"
  by (simp add: tower_reduce_simps fq3_raw_laws(1))

lemma fq3_mul_commute: "fq3_mul P a b = fq3_mul P b a"
  by (simp add: tower_reduce_simps fq3_raw_laws(2) [of _ a])

lemma fq3_mul_add: "fq3_mul P a (fq3_add P b c) = fq3_add P (fq3_mul P a b) (fq3_mul P a c)"
  by (simp add: tower_reduce_simps fq3_raw_laws(3))

lemma fq3_add_mul: "fq3_mul P (fq3_add P a b) c = fq3_add P (fq3_mul P a c) (fq3_mul P b c)"
  by (simp add: fq3_mul_commute [of P _ c] fq3_mul_add)

subsection \<open>Closure and the additive group\<close>

text \<open>The operations keep residues canonical, addition and negation form a group, and
  \<open>0\<close>, \<open>1\<close> are units on canonical elements: with the multiplicative laws above, the
  canonical elements of each tower are a commutative ring.\<close>

lemma fq2_canon_closed:
  assumes "0 < modulus P"
  shows "fq2_canon P (fq2_add P a b)" "fq2_canon P (fq2_mul P a b)" "fq2_canon P (fq2_neg P a)"
  using assms by (cases a; cases b; simp add: fq_canon_def)+

lemma fq3_canon_closed:
  assumes "0 < modulus P"
  shows "fq3_canon P (fq3_add P a b)" "fq3_canon P (fq3_mul P a b)" "fq3_canon P (fq3_neg P a)"
  using assms by (cases a; cases b; simp add: fq_canon_def)+

lemma fq2_add_laws:
  "fq2_add P (fq2_add P a b) c = fq2_add P a (fq2_add P b c)"
  "fq2_add P a b = fq2_add P b a"
  "fq2_add P (fq2_neg P a) a = Fq2 0 0"
  by (cases a; cases b; cases c; simp add: mod_simps algebra_simps)+

lemma fq3_add_laws:
  "fq3_add P (fq3_add P a b) c = fq3_add P a (fq3_add P b c)"
  "fq3_add P a b = fq3_add P b a"
  "fq3_add P (fq3_neg P a) a = Fq3 0 0 0"
  by (cases a; cases b; cases c; simp add: mod_simps algebra_simps)+

lemma fq2_unit_laws:
  assumes "fq2_canon P a"
  shows "fq2_add P (Fq2 0 0) a = a" "fq2_mul P (Fq2 1 0) a = a"
  using assms by (cases a; simp add: fq_canon_def)+

lemma fq3_unit_laws:
  assumes "fq3_canon P a"
  shows "fq3_add P (Fq3 0 0 0) a = a" "fq3_mul P (Fq3 1 0 0) a = a"
  using assms by (cases a; simp add: fq_canon_def)+

end
