(* ===== verification/Big_Integer.thy ===== *)
theory Big_Integer
  imports Prelude
begin

unbundle bit_operations_syntax

text \<open>
  The big-integer scalars of the curve configurations (external: ark-ff's \<open>BigInteger\<close>
  and \<open>BitIteratorBE\<close>).  A scalar such as \<open>COFACTOR\<close> is a little-endian slice of
  \<open>u64\<close> limbs whose value is \<open>\<Sum> limb[i] * 2^(64 i)\<close>; scalar multiplication reads it
  most significant bit first through \<open>BitIteratorBE\<close>.  The lemmas give the value of a
  limb slice, its bound, the round trip with the limb encoding of a number, and that the
  big-endian bit stream denotes the same number.
\<close>

section \<open>Limb slices\<close>

definition limbs_value :: "u64 list \<Rightarrow> nat" where
  "limbs_value ls = foldr (\<lambda>l acc. unat l + 2 ^ 64 * acc) ls 0"

fun to_limbs :: "nat \<Rightarrow> nat \<Rightarrow> u64 list" where
  "to_limbs 0 n = []"
| "to_limbs (Suc k) n = word_of_nat (n mod 2 ^ 64) # to_limbs k (n div 2 ^ 64)"

section \<open>BitIteratorBE\<close>

text \<open>
  \<^verbatim>\<open>
  fn next(&mut self) -> Option<bool> {
      if self.n == 0 { None } else {
          self.n -= 1;
          let part = self.n / 64;
          let bit = self.n - (64 * part);
          Some(self.s.as_ref()[part] & (1 << bit) > 0)
      }
  }
  \<close>
  \<open>BitIteratorBE { s, n }\<close> is the record \<open>bit_iter\<close>; \<open>new(s)\<close> sets
  \<open>n = s.len() * 64\<close>.
\<close>

record bit_iter =
  bi_s :: "u64 list"
  bi_n :: nat

definition bit_iter_new :: "u64 list \<Rightarrow> bit_iter" where
  "bit_iter_new s = \<lparr>bi_s = s, bi_n = length s * 64\<rparr>"

definition bit_iter_next :: "bit_iter \<Rightarrow> (bool \<times> bit_iter) option" where
  "bit_iter_next it =
     (if bi_n it = 0 then None
      else
        let n = bi_n it - 1; part = n div 64; b = n - 64 * part
        in Some (bi_s it ! part AND push_bit b 1 \<noteq> 0, it\<lparr>bi_n := n\<rparr>))"

text \<open>A consumer (the \<open>for\<close> loop of \<open>mul_bits\<close>) calls \<open>next\<close> until it returns
  \<open>None\<close>: \<open>bit_iter_collect\<close> is that loop, total because every \<open>Some\<close> step lowers the
  counter; \<open>bit_iter_advance k\<close> is \<open>k\<close> calls of \<open>next\<close>, \<open>None\<close> if the iterator runs
  out first.\<close>

function bit_iter_collect :: "bit_iter \<Rightarrow> bool list" where
  "bit_iter_collect it =
     (case bit_iter_next it of None \<Rightarrow> [] | Some (b, it') \<Rightarrow> b # bit_iter_collect it')"
  by pat_completeness auto

termination
  by (relation "measure bi_n") (auto simp: bit_iter_next_def Let_def split: if_splits)

declare bit_iter_collect.simps [simp del]

primrec bit_iter_advance :: "nat \<Rightarrow> bit_iter \<Rightarrow> bit_iter option" where
  "bit_iter_advance 0 it = Some it"
| "bit_iter_advance (Suc k) it =
     (case bit_iter_next it of None \<Rightarrow> None | Some (_, it') \<Rightarrow> bit_iter_advance k it')"

text \<open>The sequence \<open>BitIteratorBE::new(s)\<close> yields, and its specification: \<open>bits_from s n\<close>
  lists bits \<open>n - 1\<close> down to \<open>0\<close> of the slice, limb \<open>i\<close> holding bits \<open>64 i\<close> to
  \<open>64 i + 63\<close>.\<close>

definition bit_iterator_be :: "u64 list \<Rightarrow> bool list" where
  "bit_iterator_be s = bit_iter_collect (bit_iter_new s)"

primrec bits_from :: "u64 list \<Rightarrow> nat \<Rightarrow> bool list" where
  "bits_from s 0 = []"
| "bits_from s (Suc n) =
     (let part = n div 64; b = n - 64 * part
      in (s ! part AND push_bit b 1 \<noteq> 0) # bits_from s n)"

text \<open>The number a big-endian bit stream denotes.\<close>

definition bits_be_value :: "bool list \<Rightarrow> nat" where
  "bits_be_value bs = foldl (\<lambda>acc b. 2 * acc + of_bool b) 0 bs"

section \<open>Lemmas\<close>

lemma limbs_value_Nil [simp]: "limbs_value [] = 0"
  by (simp add: limbs_value_def)

lemma limbs_value_Cons [simp]: "limbs_value (l # ls) = unat l + 2 ^ 64 * limbs_value ls"
  by (simp add: limbs_value_def)

lemma limbs_value_bound: "limbs_value ls < 2 ^ (64 * length ls)"
proof -
  have "\<forall>d \<in> set (map unat ls). d < (2::nat) ^ 64"
    by simp
  then have "foldr (\<lambda>d acc. d + 2 ^ 64 * acc) (map unat ls) 0 < (2 ^ 64) ^ length (map unat ls)"
    by (rule foldr_digits_bound)
  moreover have "limbs_value ls = foldr (\<lambda>d acc. d + 2 ^ 64 * acc) (map unat ls) 0"
    by (induction ls) simp_all
  ultimately show ?thesis by (simp add: power_mult)
qed

lemma limbs_value_to_limbs: "limbs_value (to_limbs k n) = n mod 2 ^ (64 * k)"
proof (induction k arbitrary: n)
  case 0
  then show ?case by simp
next
  case (Suc k)
  have "limbs_value (to_limbs (Suc k) n) = n mod 2 ^ 64 + 2 ^ 64 * (n div 2 ^ 64 mod 2 ^ (64 * k))"
    by (simp add: Suc.IH unat_of_nat)
  also have "\<dots> = n mod (2 ^ 64 * 2 ^ (64 * k))"
    by (metis mod_mult2_eq add.commute)
  also have "\<dots> = n mod 2 ^ (64 * Suc k)"
    by (simp only: mult_Suc_right power_add)
  finally show ?case .
qed

lemma to_limbs_limbs_value: "to_limbs (length ls) (limbs_value ls) = ls"
proof (induction ls)
  case Nil
  then show ?case by simp
next
  case (Cons l ls)
  have lo: "(unat l + 2 ^ 64 * limbs_value ls) mod 2 ^ 64 = unat l"
    by simp
  have hi: "(unat l + 2 ^ 64 * limbs_value ls) div 2 ^ 64 = limbs_value ls"
    by simp
  show ?case
    by (simp add: lo hi Cons.IH)
qed

lemma limb_test_bit: "((w::u64) AND 2 ^ k \<noteq> 0) = bit w k"
  by (simp add: and_exp_eq_0_iff_not_bit)

lemma bit_limb_add:
  fixes a b :: nat
  assumes "a < 2 ^ 64"
  shows "bit (a + 2 ^ 64 * b) m = (if m < 64 then bit a m else bit b (m - 64))"
proof -
  from assms have ta: "take_bit 64 a = a" by (simp add: take_bit_eq_mod)
  have low: "bit a n \<Longrightarrow> n < 64" for n
    using bit_take_bit_iff [of 64 a n] ta by simp
  have "a + 2 ^ 64 * b = a + push_bit 64 b" by (simp add: push_bit_eq_mult)
  moreover have "\<And>n. \<not> bit a n \<or> \<not> bit (push_bit 64 b) n"
    by (auto simp add: bit_push_bit_iff dest: low)
  ultimately have "bit (a + 2 ^ 64 * b) m = (bit a m \<or> bit (push_bit 64 b) m)"
    by (simp add: bit_disjunctive_add_iff)
  then show ?thesis
    by (auto simp add: bit_push_bit_iff dest: low)
qed

lemma bit_limbs_value:
  "bit (limbs_value s) m = (m < 64 * length s \<and> bit (s ! (m div 64)) (m mod 64))"
proof (induction s arbitrary: m)
  case Nil
  then show ?case by simp
next
  case (Cons l s)
  show ?case
  proof (cases "m < 64")
    case True
    have "bit (limbs_value (l # s)) m = bit (unat l) m"
      unfolding limbs_value_Cons using True by (subst bit_limb_add) simp_all
    with True show ?thesis by (simp add: bit_unsigned_iff)
  next
    case False
    then have d: "m div 64 = Suc ((m - 64) div 64)" and r: "m mod 64 = (m - 64) mod 64"
      by (simp_all add: div_if mod_if)
    have "bit (limbs_value (l # s)) m = bit (limbs_value s) (m - 64)"
      unfolding limbs_value_Cons using False by (subst bit_limb_add) simp_all
    moreover have "m - 64 < 64 * length s \<longleftrightarrow> m < 64 * length (l # s)"
      using False by auto
    ultimately show ?thesis
      by (simp add: Cons.IH d r)
  qed
qed

lemma bits_be_value_acc:
  "foldl (\<lambda>acc b. 2 * acc + of_bool b) a bs = a * 2 ^ length bs + bits_be_value bs"
proof (induction bs arbitrary: a)
  case Nil
  then show ?case by (simp add: bits_be_value_def)
next
  case (Cons b bs)
  have "bits_be_value (b # bs) = of_bool b * 2 ^ length bs + bits_be_value bs"
    using Cons.IH [of "of_bool b"] by (simp add: bits_be_value_def)
  then show ?case
    using Cons.IH [of "2 * a + of_bool b"] by (simp add: algebra_simps)
qed

lemma bits_be_value_Cons:
  "bits_be_value (b # bs) = of_bool b * 2 ^ length bs + bits_be_value bs"
  using bits_be_value_acc [of "of_bool b" bs] by (simp add: bits_be_value_def)

lemma length_bits_from [simp]: "length (bits_from s n) = n"
  by (induction n) (simp_all add: Let_def)

lemma bits_from_Suc:
  assumes "n < 64 * length s"
  shows "bits_from s (Suc n) = bit (limbs_value s) n # bits_from s n"
proof -
  have "n - 64 * (n div 64) = n mod 64"
    by (simp add: minus_mult_div_eq_mod)
  then show ?thesis
    using assms by (simp add: Let_def limb_test_bit bit_limbs_value)
qed

lemma bits_from_value:
  "n \<le> 64 * length s \<Longrightarrow> bits_be_value (bits_from s n) = limbs_value s mod 2 ^ n"
proof (induction n)
  case 0
  then show ?case by (simp add: bits_be_value_def)
next
  case (Suc n)
  then have lt: "n < 64 * length s" by simp
  have "bits_be_value (bits_from s (Suc n)) =
        of_bool (bit (limbs_value s) n) * 2 ^ n + bits_be_value (bits_from s n)"
    by (simp only: bits_from_Suc [OF lt] bits_be_value_Cons length_bits_from)
  also have "\<dots> = of_bool (bit (limbs_value s) n) * 2 ^ n + limbs_value s mod 2 ^ n"
    using Suc lt by simp
  also have "\<dots> = limbs_value s mod 2 ^ Suc n"
    using take_bit_Suc_from_most [of n "limbs_value s"] by (simp add: take_bit_eq_mod)
  finally show ?case .
qed

subsection \<open>The iterator\<close>

lemma bit_iter_next_Some:
  "bit_iter_next \<lparr>bi_s = s, bi_n = Suc n\<rparr> =
     Some (s ! (n div 64) AND push_bit (n - 64 * (n div 64)) 1 \<noteq> 0, \<lparr>bi_s = s, bi_n = n\<rparr>)"
  by (simp add: bit_iter_next_def Let_def)

lemma bit_iter_next_None: "bit_iter_next it = None \<longleftrightarrow> bi_n it = 0"
  by (simp add: bit_iter_next_def Let_def)

lemma bit_iter_collect_bits_from: "bit_iter_collect \<lparr>bi_s = s, bi_n = n\<rparr> = bits_from s n"
proof (induction n)
  case 0
  show ?case by (subst bit_iter_collect.simps) (simp add: bit_iter_next_def)
next
  case (Suc n)
  show ?case by (subst bit_iter_collect.simps) (simp add: bit_iter_next_Some Let_def Suc.IH)
qed

lemma bit_iterator_be_bits_from: "bit_iterator_be s = bits_from s (64 * length s)"
  by (simp add: bit_iterator_be_def bit_iter_new_def bit_iter_collect_bits_from mult.commute)

lemma length_bit_iter_collect: "length (bit_iter_collect it) = bi_n it"
  by (cases it) (simp add: bit_iter_collect_bits_from)

lemma bit_iter_advance_exhausts:
  "bit_iter_advance n \<lparr>bi_s = s, bi_n = n\<rparr> = Some \<lparr>bi_s = s, bi_n = 0\<rparr>"
  by (induction n) (simp_all add: bit_iter_next_Some)

lemma bit_iterator_be_value: "bits_be_value (bit_iterator_be s) = limbs_value s"
  using bits_from_value [of "64 * length s" s] limbs_value_bound [of s]
  by (simp add: bit_iterator_be_bits_from)
subsection \<open>Zero limbs\<close>

text \<open>A slice of zero limbs (the scalar \<open>0\<close>) yields only \<open>false\<close> bits.\<close>

lemma bits_from_zero_limbs:
  "n \<le> 64 * k \<Longrightarrow> bits_from (replicate k 0) n = replicate n False"
  by (induction n) (simp_all add: Let_def)

lemma bit_iterator_be_zero_limbs: "bit_iterator_be (replicate k 0) = replicate (64 * k) False"
  by (simp add: bit_iterator_be_bits_from bits_from_zero_limbs)

end
