(* ===== verification/Sw_Curve.thy ===== *)
theory Sw_Curve
  imports Field_Tower Big_Integer
begin

text \<open>
  The generic short-Weierstrass group the curve configurations are consumed by (external
  to the sources: ark-ec's \<open>SWModelParameters\<close> trait and \<open>short_weierstrass_jacobian\<close>
  module).  The trait is the record \<open>sw_params\<close>: a curve configuration is a value of it,
  with its own \<open>mul_by_a\<close>.  A field is given by its operations (\<open>field_ops\<close>) and a group
  by its zero, zero test, addition and doubling (\<open>group_ops\<close>), so that the algorithms below are
  stated once for every curve.  Shown here: the curve-membership check is the Weierstrass
  equation whenever \<open>mul_by_a\<close> multiplies by \<open>COEFF_A\<close>; the double-and-add loop
  \<open>mul_bits\<close> computes the scalar multiple denoted by its bit stream in any monoid; hence
  cofactor clearing multiplies by the value of the \<open>COFACTOR\<close> limbs and the subgroup check
  tests \<open>r \<cdot> P = 0\<close>.
\<close>

section \<open>Interfaces\<close>

record 'f field_ops =
  f_add :: "'f \<Rightarrow> 'f \<Rightarrow> 'f"
  f_mul :: "'f \<Rightarrow> 'f \<Rightarrow> 'f"
  f_zero :: 'f

text \<open>\<open>SWModelParameters\<close>: the constants and the \<open>mul_by_a\<close> hook of one curve.\<close>

record 'f sw_params =
  coeff_a :: 'f
  coeff_b :: 'f
  cofactor :: "u64 list"
  cofactor_inv :: int
  affine_generator_coeffs :: "'f \<times> 'f"
  mul_by_a :: "'f \<Rightarrow> 'f"

record 'g group_ops =
  g_zero :: 'g
  g_is_zero :: "'g \<Rightarrow> bool"
  g_add :: "'g \<Rightarrow> 'g \<Rightarrow> 'g"
  g_double :: "'g \<Rightarrow> 'g"

definition fq2_field_ops :: "ext_params \<Rightarrow> fq2 field_ops" where
  "fq2_field_ops P = \<lparr>f_add = fq2_add P, f_mul = fq2_mul P, f_zero = Fq2 0 0\<rparr>"

definition fq3_field_ops :: "ext_params \<Rightarrow> fq3 field_ops" where
  "fq3_field_ops P = \<lparr>f_add = fq3_add P, f_mul = fq3_mul P, f_zero = Fq3 0 0 0\<rparr>"

section \<open>Affine points and curve membership\<close>

datatype 'f sw_affine = GroupAffine (ga_x: 'f) (ga_y: 'f) (ga_infinity: bool)

definition is_on_curve :: "'f field_ops \<Rightarrow> 'f sw_params \<Rightarrow> 'f sw_affine \<Rightarrow> bool" where
  "is_on_curve F C p =
     (if ga_infinity p then True
      else
        let y2 = f_mul F (ga_y p) (ga_y p);
            x3b = f_add F (f_add F (f_mul F (f_mul F (ga_x p) (ga_x p)) (ga_x p))
                               (mul_by_a C (ga_x p)))
                    (coeff_b C)
        in y2 = x3b)"

definition prime_subgroup_generator :: "'f sw_params \<Rightarrow> 'f sw_affine" where
  "prime_subgroup_generator C =
     GroupAffine (fst (affine_generator_coeffs C)) (snd (affine_generator_coeffs C)) False"

text \<open>\<open>add_b(elt) = elt + COEFF_B\<close> is the trait's default method, written inline.\<close>

text \<open>Specification: the affine Weierstrass equation \<open>y\<^sup>2 = x\<^sup>3 + A x + B\<close>.\<close>

definition weierstrass_rhs :: "'f field_ops \<Rightarrow> 'f \<Rightarrow> 'f \<Rightarrow> 'f \<Rightarrow> 'f" where
  "weierstrass_rhs F A B x = f_add F (f_add F (f_mul F (f_mul F x x) x) (f_mul F A x)) B"

definition on_weierstrass :: "'f field_ops \<Rightarrow> 'f \<Rightarrow> 'f \<Rightarrow> 'f sw_affine \<Rightarrow> bool" where
  "on_weierstrass F A B p \<longleftrightarrow>
     ga_infinity p \<or> f_mul F (ga_y p) (ga_y p) = weierstrass_rhs F A B (ga_x p)"

section \<open>Scalar multiplication\<close>

text \<open>
  \<^verbatim>\<open>
  pub fn mul_bits(&self, bits: impl Iterator<Item = bool>) -> GroupProjective<P> {
      let mut res = GroupProjective::zero();
      for i in bits.skip_while(|b| !b) {
          res.double_in_place();
          if i { res.add_assign_mixed(&self) }
      }
      res
  }
  \<close>
\<close>

definition mul_bits :: "'g group_ops \<Rightarrow> 'g \<Rightarrow> bool list \<Rightarrow> 'g" where
  "mul_bits G p bits =
     foldl (\<lambda>res i. let r = g_double G res in if i then g_add G r p else r)
       (g_zero G) (dropWhile Not bits)"

definition scale_by_cofactor :: "'g group_ops \<Rightarrow> 'f sw_params \<Rightarrow> 'g \<Rightarrow> 'g" where
  "scale_by_cofactor G C p = mul_bits G p (bit_iterator_be (cofactor C))"

definition is_in_correct_subgroup_assuming_on_curve :: "'g group_ops \<Rightarrow> u64 list \<Rightarrow> 'g \<Rightarrow> bool" where
  "is_in_correct_subgroup_assuming_on_curve G r p \<longleftrightarrow>
     g_is_zero G (mul_bits G p (bit_iterator_be r))"

text \<open>Specification: \<open>n \<cdot> p\<close> as \<open>n\<close>-fold addition.\<close>

primrec scalar_mul :: "'g group_ops \<Rightarrow> nat \<Rightarrow> 'g \<Rightarrow> 'g" where
  "scalar_mul G 0 p = g_zero G"
| "scalar_mul G (Suc n) p = g_add G (scalar_mul G n p) p"

section \<open>Group orders\<close>

text \<open>
  Specification of the order of the twisted group, used to state what \<open>COFACTOR\<close> must
  satisfy.  For a curve over \<open>Fq\<close> with \<open>r\<close> points (an MNT curve's G1 has prime order
  \<open>r\<close>) the trace of Frobenius is \<open>t = q + 1 - r\<close>; over \<open>Fq^k\<close> it is \<open>t\<^sub>k\<close> with
  \<open>t\<^sub>0 = 2\<close>, \<open>t\<^sub>1 = t\<close>, \<open>t\<^sub>k\<^sub>+\<^sub>2 = t t\<^sub>k\<^sub>+\<^sub>1 - q t\<^sub>k\<close>, and the quadratic
  twist over \<open>Fq^k\<close> has \<open>q^k + 1 + t\<^sub>k\<close> points.
\<close>

definition frobenius_trace :: "int \<Rightarrow> int \<Rightarrow> int" where
  "frobenius_trace q r = q + 1 - r"

fun trace_power :: "int \<Rightarrow> int \<Rightarrow> nat \<Rightarrow> int" where
  "trace_power q t 0 = 2"
| "trace_power q t (Suc 0) = t"
| "trace_power q t (Suc (Suc k)) = t * trace_power q t (Suc k) - q * trace_power q t k"

definition twist_order :: "int \<Rightarrow> int \<Rightarrow> nat \<Rightarrow> int" where
  "twist_order q r k = q ^ k + 1 + trace_power q (frobenius_trace q r) k"

text \<open>The additive monoid of \<open>nat\<close> as a group interface, for concrete instances.\<close>

definition nat_add_ops :: "nat group_ops" where
  "nat_add_ops = \<lparr>g_zero = 0, g_is_zero = (\<lambda>x. x = 0), g_add = (+), g_double = (\<lambda>x. x + x)\<rparr>"

section \<open>Lemmas\<close>

lemma is_on_curve_on_weierstrass:
  assumes "\<And>e. mul_by_a C e = f_mul F (coeff_a C) e"
  shows "is_on_curve F C p \<longleftrightarrow> on_weierstrass F (coeff_a C) (coeff_b C) p"
  by (simp add: is_on_curve_def on_weierstrass_def weierstrass_rhs_def assms Let_def)

lemma scalar_mul_add:
  assumes assoc: "\<And>a b c. g_add G (g_add G a b) c = g_add G a (g_add G b c)"
      and right0: "\<And>a. g_add G a (g_zero G) = a"
  shows "scalar_mul G (m + n) p = g_add G (scalar_mul G m p) (scalar_mul G n p)"
  by (induction n) (simp_all add: assoc right0)

lemma bits_be_value_dropWhile: "bits_be_value (dropWhile Not bs) = bits_be_value bs"
  by (induction bs) (simp_all add: bits_be_value_Cons)

lemma mul_bits_fold:
  assumes assoc: "\<And>a b c. g_add G (g_add G a b) c = g_add G a (g_add G b c)"
      and right0: "\<And>a. g_add G a (g_zero G) = a"
      and dbl: "\<And>a. g_double G a = g_add G a a"
  shows "foldl (\<lambda>res i. let r = g_double G res in if i then g_add G r p else r)
           (scalar_mul G k p) bs = scalar_mul G (k * 2 ^ length bs + bits_be_value bs) p"
proof (induction bs arbitrary: k)
  case Nil
  then show ?case by (simp add: bits_be_value_def)
next
  case (Cons b bs)
  have step: "(let r = g_double G (scalar_mul G k p) in if b then g_add G r p else r) =
              scalar_mul G (2 * k + of_bool b) p"
    by (simp add: dbl scalar_mul_add [OF assoc right0, symmetric] mult_2)
  show ?case
    by (simp add: step Cons.IH bits_be_value_Cons algebra_simps)
qed

lemma mul_bits_scalar_mul:
  assumes assoc: "\<And>a b c. g_add G (g_add G a b) c = g_add G a (g_add G b c)"
      and right0: "\<And>a. g_add G a (g_zero G) = a"
      and dbl: "\<And>a. g_double G a = g_add G a a"
  shows "mul_bits G p bits = scalar_mul G (bits_be_value bits) p"
  using mul_bits_fold [OF assoc right0 dbl, of p 0 "dropWhile Not bits"]
  by (simp add: mul_bits_def bits_be_value_dropWhile)

lemma mul_bits_limbs:
  assumes assoc: "\<And>a b c. g_add G (g_add G a b) c = g_add G a (g_add G b c)"
      and right0: "\<And>a. g_add G a (g_zero G) = a"
      and dbl: "\<And>a. g_double G a = g_add G a a"
  shows "mul_bits G p (bit_iterator_be s) = scalar_mul G (limbs_value s) p"
  by (simp add: mul_bits_scalar_mul [OF assoc right0 dbl] bit_iterator_be_value)

lemma trace_power_2: "trace_power q t 2 = t * t - q * 2"
  by (simp add: numeral_2_eq_2)

lemma trace_power_3: "trace_power q t 3 = t * (t * t - q * 2) - q * t"
  by (simp add: numeral_3_eq_3)

lemma twist_order_2: "twist_order q r 2 = q ^ 2 + 1 + (let t = q + 1 - r in t * t - q * 2)"
  by (simp add: twist_order_def frobenius_trace_def trace_power_2 Let_def)

lemma twist_order_3:
  "twist_order q r 3 = q ^ 3 + 1 + (let t = q + 1 - r in t * (t * t - q * 2) - q * t)"
  by (simp add: twist_order_def frobenius_trace_def trace_power_3 Let_def)

lemma subgroup_check_scalar_mul:
  assumes assoc: "\<And>a b c. g_add G (g_add G a b) c = g_add G a (g_add G b c)"
      and right0: "\<And>a. g_add G a (g_zero G) = a"
      and dbl: "\<And>a. g_double G a = g_add G a a"
  shows "is_in_correct_subgroup_assuming_on_curve G r p \<longleftrightarrow> g_is_zero G (scalar_mul G (limbs_value r) p)"
  by (simp add: is_in_correct_subgroup_assuming_on_curve_def mul_bits_limbs [OF assoc right0 dbl])

lemma mul_bits_no_set_bit:
  assumes "\<forall>b \<in> set bits. \<not> b"
  shows "mul_bits G p bits = g_zero G"
proof -
  from assms have d: "dropWhile Not bits = []"
    by (simp add: dropWhile_eq_Nil_conv)
  show ?thesis
    unfolding mul_bits_def d by simp
qed

end
