(* ===== verification/Mnt4_298_G2.thy ===== *)
theory Mnt4_298_G2
  imports Sw_Curve
begin

text \<open>
  The G2 curve configuration of MNT4-298 (\<open>src/curves-0.3.0/mnt4_298/src/curves/g2.rs\<close>):
  a short-Weierstrass curve over the quadratic tower \<open>Fq2 = Fq[x]/(x\<^sup>2 - 17)\<close>, its constants
  and its \<open>mul_by_a\<close>.  The crate constants \<open>g2.rs\<close> imports (the field modulus, the tower's
  non-residue, the G1 coefficients, \<open>G1_COEFF_A_NON_RESIDUE\<close> and \<open>TWIST_COEFF_A\<close>) come
  first.  The twist coefficient is \<open>A = a x\<^sup>2 = (17 a, 0)\<close>, a base-field scalar, so \<open>A e\<close>
  scales both coefficients of \<open>e\<close> by \<open>17 a = 34\<close>.
\<close>

section \<open>Crate constants used by \<open>g2.rs\<close>\<close>

definition mnt4_Fq_MODULUS :: int where
  "mnt4_Fq_MODULUS = 475922286169261325753349249653048451545124879242694725395555128576210262817955800483758081"

definition mnt4_Fr_MODULUS :: int where
  "mnt4_Fr_MODULUS = 475922286169261325753349249653048451545124878552823515553267735739164647307408490559963137"

definition mnt4_Fq2_NONRESIDUE :: fq where
  "mnt4_Fq2_NONRESIDUE = 17"

definition mnt4_Fq2_params :: ext_params where
  "mnt4_Fq2_params = \<lparr>modulus = mnt4_Fq_MODULUS, nonresidue = mnt4_Fq2_NONRESIDUE\<rparr>"

definition mnt4_FQ_ZERO :: fq where
  "mnt4_FQ_ZERO = 0"

definition mnt4_G1_COEFF_A :: fq where
  "mnt4_G1_COEFF_A = 2"

definition mnt4_G1_COEFF_B :: fq where
  "mnt4_G1_COEFF_B = 423894536526684178289416011533888240029318103673896002803341544124054745019340795360841685"

definition mnt4_G1_COEFF_A_NON_RESIDUE :: fq where
  "mnt4_G1_COEFF_A_NON_RESIDUE = 34"

definition mnt4_TWIST_COEFF_A :: fq2 where
  "mnt4_TWIST_COEFF_A = Fq2 mnt4_G1_COEFF_A_NON_RESIDUE mnt4_FQ_ZERO"

section \<open>\<open>g2.rs\<close>\<close>

definition mnt4_MUL_BY_A_C0 :: fq where
  "mnt4_MUL_BY_A_C0 = mnt4_G1_COEFF_A_NON_RESIDUE"

definition mnt4_MUL_BY_A_C1 :: fq where
  "mnt4_MUL_BY_A_C1 = mnt4_G1_COEFF_A_NON_RESIDUE"

definition mnt4_G2_COEFF_A :: fq2 where
  "mnt4_G2_COEFF_A = mnt4_TWIST_COEFF_A"

definition mnt4_G2_COEFF_B :: fq2 where
  "mnt4_G2_COEFF_B =
     Fq2 mnt4_FQ_ZERO
         67372828414711144619833451280373307321534573815811166723479321465776723059456513877937430"

definition mnt4_G2_COFACTOR :: "u64 list" where
  "mnt4_G2_COFACTOR =
     [15480692783052488705, 9802782456999489873, 14622846468721090623, 11702080941310629006,
      4110145082483]"

definition mnt4_G2_COFACTOR_INV :: int where
  "mnt4_G2_COFACTOR_INV = 475922286169261325753349249653048451545124878207887910632124039320641839552134835598065665"

fun mnt4_g2_mul_by_a :: "fq2 \<Rightarrow> fq2" where
  "mnt4_g2_mul_by_a (Fq2 c0 c1) =
     Fq2 (fq_mul mnt4_Fq_MODULUS mnt4_MUL_BY_A_C0 c0) (fq_mul mnt4_Fq_MODULUS mnt4_MUL_BY_A_C1 c1)"

definition mnt4_G2_GENERATOR_X_C0 :: fq where
  "mnt4_G2_GENERATOR_X_C0 = 438374926219350099854919100077809681842783509163790991847867546339851681564223481322252708"

definition mnt4_G2_GENERATOR_X_C1 :: fq where
  "mnt4_G2_GENERATOR_X_C1 = 37620953615500480110935514360923278605464476459712393277679280819942849043649216370485641"

definition mnt4_G2_GENERATOR_Y_C0 :: fq where
  "mnt4_G2_GENERATOR_Y_C0 = 37437409008528968268352521034936931842973546441370663118543015118291998305624025037512482"

definition mnt4_G2_GENERATOR_Y_C1 :: fq where
  "mnt4_G2_GENERATOR_Y_C1 = 424621479598893882672393190337420680597584695892317197646113820787463109735345923009077489"

definition mnt4_G2_GENERATOR_X :: fq2 where
  "mnt4_G2_GENERATOR_X = Fq2 mnt4_G2_GENERATOR_X_C0 mnt4_G2_GENERATOR_X_C1"

definition mnt4_G2_GENERATOR_Y :: fq2 where
  "mnt4_G2_GENERATOR_Y = Fq2 mnt4_G2_GENERATOR_Y_C0 mnt4_G2_GENERATOR_Y_C1"

definition mnt4_G2_AFFINE_GENERATOR_COEFFS :: "fq2 \<times> fq2" where
  "mnt4_G2_AFFINE_GENERATOR_COEFFS = (mnt4_G2_GENERATOR_X, mnt4_G2_GENERATOR_Y)"

text \<open>The \<open>impl SWModelParameters for Parameters\<close> block as a value of the trait record.\<close>

definition mnt4_g2_parameters :: "fq2 sw_params" where
  "mnt4_g2_parameters =
     \<lparr>coeff_a = mnt4_G2_COEFF_A, coeff_b = mnt4_G2_COEFF_B, cofactor = mnt4_G2_COFACTOR,
      cofactor_inv = mnt4_G2_COFACTOR_INV,
      affine_generator_coeffs = mnt4_G2_AFFINE_GENERATOR_COEFFS,
      mul_by_a = mnt4_g2_mul_by_a\<rparr>"

section \<open>Lemmas\<close>

lemmas mnt4_consts [curve_consts] =
  mnt4_Fq_MODULUS_def mnt4_Fq2_NONRESIDUE_def mnt4_FQ_ZERO_def mnt4_G1_COEFF_A_NON_RESIDUE_def
  mnt4_TWIST_COEFF_A_def mnt4_MUL_BY_A_C0_def mnt4_MUL_BY_A_C1_def mnt4_G2_COEFF_A_def
  mnt4_Fq2_params_def

lemma mnt4_mul_by_a_is_mul:
  "mnt4_g2_mul_by_a e = fq2_mul mnt4_Fq2_params mnt4_G2_COEFF_A e"
proof (cases e)
  case (Fq2 c0 c1)
  then show ?thesis
    by (simp add: mnt4_consts fq_mul_def)
qed

lemma mnt4_cofactor_value:
  "limbs_value mnt4_G2_COFACTOR = 475922286169261325753349249653048451545124879932565935237842521413255878328503110407553025"
  by (simp add: mnt4_G2_COFACTOR_def)

lemma mnt4_params_fields [simp]:
  "coeff_a mnt4_g2_parameters = mnt4_G2_COEFF_A"
  "coeff_b mnt4_g2_parameters = mnt4_G2_COEFF_B"
  "cofactor mnt4_g2_parameters = mnt4_G2_COFACTOR"
  "mul_by_a mnt4_g2_parameters = mnt4_g2_mul_by_a"
  "f_mul (fq2_field_ops mnt4_Fq2_params) = fq2_mul mnt4_Fq2_params"
  by (simp_all add: mnt4_g2_parameters_def fq2_field_ops_def)

lemma mnt4_generator_point:
  "prime_subgroup_generator mnt4_g2_parameters =
   GroupAffine mnt4_G2_GENERATOR_X mnt4_G2_GENERATOR_Y False"
  by (simp add: prime_subgroup_generator_def mnt4_g2_parameters_def mnt4_G2_AFFINE_GENERATOR_COEFFS_def)

lemma mnt4_generator_on_curve_eval:
  "fq2_mul mnt4_Fq2_params mnt4_G2_GENERATOR_Y mnt4_G2_GENERATOR_Y =
   fq2_add mnt4_Fq2_params
     (fq2_add mnt4_Fq2_params
        (fq2_mul mnt4_Fq2_params (fq2_mul mnt4_Fq2_params mnt4_G2_GENERATOR_X mnt4_G2_GENERATOR_X)
           mnt4_G2_GENERATOR_X)
        (mnt4_g2_mul_by_a mnt4_G2_GENERATOR_X))
     mnt4_G2_COEFF_B"
  by code_simp

lemma mnt4_is_on_curve_unfold:
  "is_on_curve (fq2_field_ops mnt4_Fq2_params) mnt4_g2_parameters (GroupAffine x y z) \<longleftrightarrow>
   z \<or> fq2_mul mnt4_Fq2_params y y =
     fq2_add mnt4_Fq2_params
       (fq2_add mnt4_Fq2_params (fq2_mul mnt4_Fq2_params (fq2_mul mnt4_Fq2_params x x) x)
          (mnt4_g2_mul_by_a x))
       mnt4_G2_COEFF_B"
  by (simp add: is_on_curve_def mnt4_g2_parameters_def fq2_field_ops_def
      Let_def)

text \<open>C2: the MNT4-298 G2 \<open>mul_by_a\<close> computes the product with \<open>COEFF_A\<close> in the
  quotient ring \<open>Fq[x]/(x\<^sup>2 - 17)\<close>, for every tower element.\<close>

theorem mnt4_g2_mul_by_a_correct:
  "fq2_coeffs (mnt4_g2_mul_by_a e) =
   tower_mul mnt4_Fq_MODULUS mnt4_Fq2_NONRESIDUE (fq2_coeffs mnt4_G2_COEFF_A) (fq2_coeffs e)"
  using fq2_mul_tower [of mnt4_Fq2_params mnt4_G2_COEFF_A e]
  by (simp add: mnt4_mul_by_a_is_mul mnt4_Fq2_params_def)

text \<open>C4: the MNT4-298 G2 generator \<open>(G2_GENERATOR_X, G2_GENERATOR_Y)\<close> satisfies the
  curve-membership check of the group, with the configuration's \<open>mul_by_a\<close> and
  \<open>COEFF_B\<close>.\<close>

theorem mnt4_g2_generator_on_curve:
  "is_on_curve (fq2_field_ops mnt4_Fq2_params) mnt4_g2_parameters (prime_subgroup_generator mnt4_g2_parameters)"
  by (simp only: mnt4_generator_point mnt4_is_on_curve_unfold mnt4_generator_on_curve_eval simp_thms)

text \<open>C6: \<open>COFACTOR_INV\<close> is a canonical element of \<open>Fr\<close> and the inverse of the
  cofactor modulo the subgroup order \<open>r\<close>: \<open>h * h\<^sup>-\<^sup>1 = 1 (mod r)\<close>.\<close>

theorem mnt4_g2_cofactor_inv:
  "(int (limbs_value mnt4_G2_COFACTOR) * mnt4_G2_COFACTOR_INV) mod mnt4_Fr_MODULUS = 1 \<and>
   fq_canon mnt4_Fr_MODULUS mnt4_G2_COFACTOR_INV"
  by (simp add: mnt4_cofactor_value mnt4_G2_COFACTOR_INV_def mnt4_Fr_MODULUS_def fq_canon_def)

text \<open>C8: the limb slice \<open>COFACTOR\<close> denotes the decimal cofactor of its doc comment, and
  it is exactly the 5-limb little-endian encoding of that number.\<close>

theorem mnt4_g2_cofactor_limbs:
  "limbs_value mnt4_G2_COFACTOR = 475922286169261325753349249653048451545124879932565935237842521413255878328503110407553025 \<and>
   to_limbs 5 475922286169261325753349249653048451545124879932565935237842521413255878328503110407553025 = mnt4_G2_COFACTOR"
proof -
  have "to_limbs (length mnt4_G2_COFACTOR) (limbs_value mnt4_G2_COFACTOR) = mnt4_G2_COFACTOR"
    by (rule to_limbs_limbs_value)
  moreover have "length mnt4_G2_COFACTOR = 5"
    by (simp add: mnt4_G2_COFACTOR_def)
  ultimately show ?thesis
    by (simp add: mnt4_cofactor_value)
qed

text \<open>C10: clearing the cofactor of a point (\<open>scale_by_cofactor\<close>: double-and-add over
  \<open>BitIteratorBE::new(COFACTOR)\<close>) multiplies it by the decimal cofactor, in any group
  whose addition is associative with a right identity and whose doubling adds a point to
  itself.\<close>

theorem mnt4_g2_scale_by_cofactor:
  assumes "\<And>a b c. g_add G (g_add G a b) c = g_add G a (g_add G b c)"
      and "\<And>a. g_add G a (g_zero G) = a"
      and "\<And>a. g_double G a = g_add G a a"
  shows "scale_by_cofactor G mnt4_g2_parameters p = scalar_mul G 475922286169261325753349249653048451545124879932565935237842521413255878328503110407553025 p"
  by (simp add: scale_by_cofactor_def mul_bits_limbs [OF assms] mnt4_cofactor_value)

text \<open>C12: with the configuration's \<open>mul_by_a\<close>, the group's curve-membership check is
  exactly the Weierstrass equation \<open>y\<^sup>2 = x\<^sup>3 + A x + B\<close> over \<open>Fq2\<close> with the
  configuration's \<open>COEFF_A\<close> and \<open>COEFF_B\<close>.\<close>

theorem mnt4_g2_is_on_curve_weierstrass:
  "is_on_curve (fq2_field_ops mnt4_Fq2_params) mnt4_g2_parameters p \<longleftrightarrow>
   on_weierstrass (fq2_field_ops mnt4_Fq2_params) mnt4_G2_COEFF_A mnt4_G2_COEFF_B p"
  using is_on_curve_on_weierstrass [of mnt4_g2_parameters "fq2_field_ops mnt4_Fq2_params" p]
  by (simp add: mnt4_mul_by_a_is_mul)

text \<open>C14: the iterator \<open>BitIteratorBE::new(COFACTOR)\<close> is eventually exhausted: after
  320 calls of \<open>next\<close> that each yield a bit (five 64-bit limbs), the next call returns
  \<open>None\<close>.\<close>

theorem mnt4_g2_cofactor_iterator_exhausts:
  "\<exists>it. bit_iter_advance 320 (bit_iter_new mnt4_G2_COFACTOR) = Some it \<and> bit_iter_next it = None"
proof -
  have "bit_iter_new mnt4_G2_COFACTOR = \<lparr>bi_s = mnt4_G2_COFACTOR, bi_n = 320\<rparr>"
    by (simp add: bit_iter_new_def mnt4_G2_COFACTOR_def)
  then show ?thesis
    using bit_iter_advance_exhausts [of 320 mnt4_G2_COFACTOR]
    by (simp add: bit_iter_next_None)
qed

text \<open>Witness of C10 at the additive monoid of \<open>nat\<close> and the point \<open>1\<close>.\<close>

theorem mnt4_g2_scale_by_cofactor_witness:
  "scale_by_cofactor nat_add_ops mnt4_g2_parameters 1 = scalar_mul nat_add_ops 475922286169261325753349249653048451545124879932565935237842521413255878328503110407553025 1"
  by (rule mnt4_g2_scale_by_cofactor) (simp_all add: nat_add_ops_def)

text \<open>C17: the twist coefficients are the base curve's, moved to the twist by the tower's
  generator \<open>X = x\<close>: \<open>COEFF_A = a X\<^sup>2\<close> and \<open>COEFF_B = b X\<^sup>3\<close> in \<open>Fq2\<close> (the
  embedding \<open>mul_by_a\<close> relies on).\<close>

theorem mnt4_g2_twist_coefficients:
  "mnt4_G2_COEFF_A = fq2_mul mnt4_Fq2_params (Fq2 mnt4_G1_COEFF_A 0) (fq2_mul mnt4_Fq2_params (Fq2 0 1) (Fq2 0 1)) \<and>
   mnt4_G2_COEFF_B =
     fq2_mul mnt4_Fq2_params (Fq2 mnt4_G1_COEFF_B 0)
       (fq2_mul mnt4_Fq2_params (Fq2 0 1) (fq2_mul mnt4_Fq2_params (Fq2 0 1) (Fq2 0 1)))"
  by (simp add: mnt4_consts mnt4_G1_COEFF_A_def mnt4_G1_COEFF_B_def mnt4_G2_COEFF_B_def)

text \<open>C19: \<open>COFACTOR\<close> times the subgroup order \<open>r\<close> is the number of points of the
  twist over \<open>Fq^2\<close>, \<open>q^2 + 1 + t\<^sub>2\<close>, where \<open>t = q + 1 - r\<close> is the trace of
  the G1 curve (of prime order \<open>r\<close>).\<close>

theorem mnt4_g2_cofactor_twist_order:
  "int (limbs_value mnt4_G2_COFACTOR) * mnt4_Fr_MODULUS = twist_order mnt4_Fq_MODULUS mnt4_Fr_MODULUS 2"
  unfolding twist_order_2 mnt4_cofactor_value
  by (simp add: Let_def mnt4_Fr_MODULUS_def mnt4_Fq_MODULUS_def)

end
