(* ===== verification/Sw_Jacobian.thy ===== *)
theory Sw_Jacobian
  imports Sw_Curve
begin

text \<open>
  The group law of ark-ec's \<open>short_weierstrass_jacobian\<close> module, which every G2 point
  operation of the curve configurations goes through (external to the sources).  A point
  \<open>GroupProjective X Y Z\<close> stands for the affine point \<open>(X/Z\<^sup>2, Y/Z\<^sup>3)\<close>, and \<open>Z = 0\<close>
  for the point at infinity.  The operations are written generically over the field trait
  (the type class \<open>comm_ring_1\<close>: the formulas divide by nothing), with the
  configuration's \<open>mul_by_a\<close> wherever the code calls \<open>P::mul_by_a\<close>.  Shown here: the
  Jacobian form of the curve equation, \<open>Y\<^sup>2 = X\<^sup>3 + a X Z\<^sup>4 + b Z\<^sup>6\<close>, is an invariant of
  doubling, addition and double-and-add whenever \<open>mul_by_a\<close> multiplies by
  \<open>COEFF_A\<close>; doubling and addition compute the affine tangent and chord constructions on
  Jacobian representatives; mixed addition is addition of the lifted affine point; and over a field the
  conversions to and from affine coordinates preserve curve membership and round-trip.
\<close>

section \<open>Projective points\<close>

datatype 'f sw_projective = GroupProjective (gp_x: 'f) (gp_y: 'f) (gp_z: 'f)

text \<open>\<open>Zero::zero\<close> and \<open>is_zero\<close>: the point at infinity is \<open>(1, 1, 0)\<close>, and any point
  with \<open>Z = 0\<close> is zero.\<close>

definition proj_zero :: "'f::comm_ring_1 sw_projective" where
  "proj_zero = GroupProjective 1 1 0"

definition proj_is_zero :: "'f::comm_ring_1 sw_projective \<Rightarrow> bool" where
  "proj_is_zero p \<longleftrightarrow> gp_z p = 0"

text \<open>\<open>double_in_place\<close>: \<open>dbl-2009-l\<close> when \<open>COEFF_A = 0\<close>, else \<open>dbl-2007-bl\<close>, whose
  \<open>M = 3 XX + a ZZ\<^sup>2\<close> calls \<open>mul_by_a\<close>.\<close>

fun proj_double :: "'f::comm_ring_1 sw_params \<Rightarrow> 'f sw_projective \<Rightarrow> 'f sw_projective" where
  "proj_double C (GroupProjective x y z) =
     (if z = 0 then GroupProjective x y z
      else if coeff_a C = 0 then
        (let a = x\<^sup>2; b = y\<^sup>2; c = b\<^sup>2; d = 2 * ((x + b)\<^sup>2 - a - c); e = a + 2 * a; f = e\<^sup>2;
             x3 = f - 2 * d
         in GroupProjective x3 ((d - x3) * e - 8 * c) (2 * (z * y)))
      else
        (let xx = x\<^sup>2; yy = y\<^sup>2; yyyy = yy\<^sup>2; zz = z\<^sup>2;
             s = 2 * ((x + yy)\<^sup>2 - xx - yyyy);
             m = xx + 2 * xx + mul_by_a C (zz\<^sup>2);
             t = m\<^sup>2 - 2 * s
         in GroupProjective t (m * (s - t) - 8 * yyyy) ((y + z)\<^sup>2 - yy - zz)))"

text \<open>\<open>add_assign_mixed\<close> (\<open>madd-2007-bl\<close>): adds an affine point; equal inputs are
  doubled.\<close>

fun proj_add_mixed ::
  "'f::comm_ring_1 sw_params \<Rightarrow> 'f sw_projective \<Rightarrow> 'f sw_affine \<Rightarrow> 'f sw_projective" where
  "proj_add_mixed C (GroupProjective x1 y1 z1) (GroupAffine x2 y2 is_inf) =
     (if is_inf then GroupProjective x1 y1 z1
      else if z1 = 0 then GroupProjective x2 y2 1
      else
        (let z1z1 = z1\<^sup>2; u2 = x2 * z1z1; s2 = (y2 * z1) * z1z1
         in if x1 = u2 \<and> y1 = s2 then proj_double C (GroupProjective x1 y1 z1)
            else
              (let h = u2 - x1; hh = h\<^sup>2; i = 4 * hh; j = h * i; r = 2 * (s2 - y1);
                   v = x1 * i; x3 = r\<^sup>2 - j - v - v
               in GroupProjective x3 ((v - x3) * r - 2 * (j * y1)) ((z1 + h)\<^sup>2 - z1z1 - hh))))"

text \<open>\<open>AddAssign\<close> for two projective points (\<open>add-2007-bl\<close>).\<close>

fun proj_add ::
  "'f::comm_ring_1 sw_params \<Rightarrow> 'f sw_projective \<Rightarrow> 'f sw_projective \<Rightarrow> 'f sw_projective" where
  "proj_add C (GroupProjective x1 y1 z1) (GroupProjective x2 y2 z2) =
     (if z1 = 0 then GroupProjective x2 y2 z2
      else if z2 = 0 then GroupProjective x1 y1 z1
      else
        (let z1z1 = z1\<^sup>2; z2z2 = z2\<^sup>2; u1 = x1 * z2z2; u2 = x2 * z1z1;
             s1 = y1 * z2 * z2z2; s2 = y2 * z1 * z1z1
         in if u1 = u2 \<and> s1 = s2 then proj_double C (GroupProjective x1 y1 z1)
            else
              (let h = u2 - u1; i = (2 * h)\<^sup>2; j = h * i; r = 2 * (s2 - s1); v = u1 * i;
                   x3 = r\<^sup>2 - j - 2 * v
               in GroupProjective x3 (r * (v - x3) - 2 * (s1 * j))
                    (((z1 + z2)\<^sup>2 - z1z1 - z2z2) * h))))"

text \<open>\<open>From<GroupAffine>\<close> and \<open>From<GroupProjective>\<close> (\<open>into_affine\<close>); the affine zero
  is \<open>(0, 1, infinity)\<close>.\<close>

fun proj_from_affine :: "'f::comm_ring_1 sw_affine \<Rightarrow> 'f sw_projective" where
  "proj_from_affine (GroupAffine x y is_inf) = (if is_inf then proj_zero else GroupProjective x y 1)"

fun proj_into_affine :: "'f::field sw_projective \<Rightarrow> 'f sw_affine" where
  "proj_into_affine (GroupProjective x y z) =
     (if z = 0 then GroupAffine 0 1 True
      else if z = 1 then GroupAffine x y False
      else
        (let zinv = inverse z; zinv_squared = zinv\<^sup>2
         in GroupAffine (x * zinv_squared) (y * (zinv_squared * zinv)) False))"

section \<open>The curve in Jacobian coordinates\<close>

text \<open>Specification: the point invariant in projective form, and the ring operations of a
  field type as the field interface of the affine check.\<close>

definition proj_curve_poly :: "'f::comm_ring_1 \<Rightarrow> 'f \<Rightarrow> 'f sw_projective \<Rightarrow> 'f" where
  "proj_curve_poly a b p =
     gp_y p ^ 2 - (gp_x p ^ 3 + a * gp_x p * gp_z p ^ 4 + b * gp_z p ^ 6)"

definition proj_on_curve :: "'f::comm_ring_1 sw_params \<Rightarrow> 'f sw_projective \<Rightarrow> bool" where
  "proj_on_curve C p \<longleftrightarrow> proj_curve_poly (coeff_a C) (coeff_b C) p = 0"

definition ring_field_ops :: "'f::comm_ring_1 field_ops" where
  "ring_field_ops = \<lparr>f_add = (+), f_mul = (*), f_zero = 0\<rparr>"

text \<open>The Jacobian group as the group interface of the double-and-add loop.  The code's
  \<open>mul_bits\<close> adds the affine \<open>self\<close> with \<open>add_assign_mixed\<close>; here the loop adds its
  lift with \<open>add_assign\<close>, which \<open>proj_add_mixed_eq_add\<close> shows to be the same point
  (the two differ only in the representative of zero when both operands are zero).\<close>

definition proj_group_ops :: "'f::comm_ring_1 sw_params \<Rightarrow> 'f sw_projective group_ops" where
  "proj_group_ops C =
     \<lparr>g_zero = proj_zero, g_is_zero = proj_is_zero, g_add = proj_add C, g_double = proj_double C\<rparr>"

text \<open>A configuration read through a representation of its base field (used to view a
  configuration over the tower datatypes as one over a ring type).\<close>

definition map_sw_params :: "('f \<Rightarrow> 'g) \<Rightarrow> ('g \<Rightarrow> 'f) \<Rightarrow> 'f sw_params \<Rightarrow> 'g sw_params" where
  "map_sw_params to_g from_g C =
     \<lparr>coeff_a = to_g (coeff_a C), coeff_b = to_g (coeff_b C), cofactor = cofactor C,
      cofactor_inv = cofactor_inv C,
      affine_generator_coeffs = map_prod to_g to_g (affine_generator_coeffs C),
      mul_by_a = (\<lambda>x. to_g (mul_by_a C (from_g x)))\<rparr>"

definition mul_by_a_is_mul :: "'f::comm_ring_1 sw_params \<Rightarrow> bool" where
  "mul_by_a_is_mul C \<longleftrightarrow> mul_by_a C = (*) (coeff_a C)"

text \<open>Specification of the affine group law without division: \<open>jacobian_repr (x, y) z\<close>
  is the Jacobian representative \<open>(x Z\<^sup>2, y Z\<^sup>3, Z)\<close> of the affine point \<open>(x, y)\<close>, and
  \<open>affine_chord l x1 y1 x2\<close> is the third intersection, reflected, of the line of slope \<open>l\<close>
  through \<open>(x1, y1)\<close>: the sum of two points of abscissae \<open>x1\<close>, \<open>x2\<close> (the chord, slope
  \<open>(y2 - y1)/(x2 - x1)\<close>) or the double of a point (the tangent, \<open>x2 = x1\<close>, slope
  \<open>(3 x1\<^sup>2 + a)/(2 y1)\<close>).  The slope is a parameter related to the points by a product, so
  the law is stated in any commutative ring.\<close>

fun jacobian_repr :: "'f::comm_ring_1 \<times> 'f \<Rightarrow> 'f \<Rightarrow> 'f sw_projective" where
  "jacobian_repr (x, y) z = GroupProjective (x * z\<^sup>2) (y * z ^ 3) z"

definition affine_chord :: "'f::comm_ring_1 \<Rightarrow> 'f \<Rightarrow> 'f \<Rightarrow> 'f \<Rightarrow> 'f \<times> 'f" where
  "affine_chord l x1 y1 x2 = (let x3 = l\<^sup>2 - x1 - x2 in (x3, l * (x1 - x3) - y1))"

section \<open>Lemmas\<close>

subsection \<open>The curve polynomial under the group law\<close>

text \<open>Doubling multiplies the curve polynomial by \<open>64 Y\<^sup>6\<close> (both formulas); addition
  maps it into the ideal of the two inputs' polynomials.  The cofactors were found by
  division in \<open>Z[a, b, X, Y, Z]\<close>; the identities hold in every commutative ring.\<close>

lemma proj_double_poly:
  fixes x y z a b :: "'f::comm_ring_1"
  shows "let xx = x\<^sup>2; yy = y\<^sup>2; yyyy = yy\<^sup>2; zz = z\<^sup>2; s = 2 * ((x + yy)\<^sup>2 - xx - yyyy);
             m = xx + 2 * xx + a * zz\<^sup>2; t = m\<^sup>2 - 2 * s
         in proj_curve_poly a b (GroupProjective t (m * (s - t) - 8 * yyyy) ((y + z)\<^sup>2 - yy - zz)) =
            64 * y ^ 6 * proj_curve_poly a b (GroupProjective x y z)"
  unfolding Let_def proj_curve_poly_def
  by (simp add: algebra_simps power_def numeral_eq_Suc)

lemma proj_double_poly_a0:
  fixes x y z b :: "'f::comm_ring_1"
  shows "let a = x\<^sup>2; bb = y\<^sup>2; c = bb\<^sup>2; d = 2 * ((x + bb)\<^sup>2 - a - c); e = a + 2 * a; f = e\<^sup>2;
             x3 = f - 2 * d
         in proj_curve_poly 0 b (GroupProjective x3 ((d - x3) * e - 8 * c) (2 * (z * y))) =
            64 * y ^ 6 * proj_curve_poly 0 b (GroupProjective x y z)"
  unfolding Let_def proj_curve_poly_def
  by (simp add: algebra_simps power_def numeral_eq_Suc)

lemma proj_add_poly:
  fixes x1 y1 z1 x2 y2 z2 a b :: "'f::comm_ring_1"
  shows "\<exists>c1 c2.
           proj_curve_poly a b
             (let z1z1 = z1\<^sup>2; z2z2 = z2\<^sup>2; u1 = x1 * z2z2; u2 = x2 * z1z1;
                  s1 = y1 * z2 * z2z2; s2 = y2 * z1 * z1z1;
                  h = u2 - u1; i = (2 * h)\<^sup>2; j = h * i; r = 2 * (s2 - s1); v = u1 * i;
                  x3 = r\<^sup>2 - j - 2 * v
              in GroupProjective x3 (r * (v - x3) - 2 * (s1 * j)) (((z1 + z2)\<^sup>2 - z1z1 - z2z2) * h)) =
           c1 * proj_curve_poly a b (GroupProjective x1 y1 z1) +
           c2 * proj_curve_poly a b (GroupProjective x2 y2 z2)"
  apply (rule exI [of _ "- 64*z1^12*x2^3*z2^12*b - 64*z1^12*x2^4*z2^10*a + 64*z1^12*x2^6*z2^6 + 128*y1*z1^9*x2^3*y2*z2^9 - 64*y1^2*z1^6*x2^3*z2^12 + 192*x1*z1^10*x2^2*z2^14*b + 192*x1*z1^10*x2^3*z2^12*a - 384*x1*z1^10*x2^5*z2^8 - 384*x1*y1*z1^7*x2^2*y2*z2^11 + 192*x1*y1^2*z1^4*x2^2*z2^14 - 192*x1^2*z1^8*x2*z2^16*b - 192*x1^2*z1^8*x2^2*z2^14*a + 768*x1^2*z1^8*x2^4*z2^10 + 384*x1^2*y1*z1^5*x2*y2*z2^13 - 192*x1^2*y1^2*z1^2*x2*z2^16 + 64*x1^3*z1^6*z2^18*b + 64*x1^3*z1^6*x2*z2^16*a - 576*x1^3*z1^6*x2^3*z2^12 - 128*x1^3*y1*z1^3*y2*z2^15 + 64*x1^3*y1^2*z2^18 + 192*x1^5*z1^2*x2*z2^16 - 64*x1^6*z2^18"],
    rule exI [of _ "64*z1^18*x2^3*z2^6*b + 64*z1^18*x2^3*y2^2 - 64*z1^18*x2^6 - 128*y1*z1^15*x2^3*y2*z2^3 - 192*x1*z1^16*x2^2*z2^8*b - 192*x1*z1^16*x2^2*y2^2*z2^2 + 64*x1*z1^16*x2^3*z2^6*a + 192*x1*z1^16*x2^5*z2^2 + 384*x1*y1*z1^13*x2^2*y2*z2^5 + 192*x1^2*z1^14*x2*z2^10*b + 192*x1^2*z1^14*x2*y2^2*z2^4 - 192*x1^2*z1^14*x2^2*z2^8*a - 384*x1^2*y1*z1^11*x2*y2*z2^7 - 64*x1^3*z1^12*z2^12*b - 64*x1^3*z1^12*y2^2*z2^6 + 192*x1^3*z1^12*x2*z2^10*a - 576*x1^3*z1^12*x2^3*z2^6 + 128*x1^3*y1*z1^9*y2*z2^9 - 64*x1^4*z1^10*z2^12*a + 768*x1^4*z1^10*x2^2*z2^8 - 384*x1^5*z1^8*x2*z2^10 + 64*x1^6*z1^6*z2^12"])
  unfolding Let_def proj_curve_poly_def
  by (simp add: algebra_simps power_def numeral_eq_Suc)

subsection \<open>The group law keeps points on the curve\<close>

lemma proj_on_curve_poly:
  "proj_on_curve C p \<longleftrightarrow> proj_curve_poly (coeff_a C) (coeff_b C) p = 0"
  by (simp add: proj_on_curve_def)

lemma proj_double_curve_poly:
  assumes "mul_by_a_is_mul C"
  shows "proj_curve_poly (coeff_a C) (coeff_b C) (proj_double C p) =
         (if gp_z p = 0 then 1 else 64 * gp_y p ^ 6) * proj_curve_poly (coeff_a C) (coeff_b C) p"
proof (cases p)
  case (GroupProjective x y z)
  show ?thesis
  proof (cases "z = 0")
    case False
    show ?thesis
    proof (cases "coeff_a C = 0")
      case True
      then show ?thesis
        using False proj_double_poly_a0 [of x y "coeff_b C" z]
        by (simp add: GroupProjective Let_def)
    next
      case a: False
      then show ?thesis
        using False assms proj_double_poly [of x y z "coeff_a C" "coeff_b C"]
        by (simp add: GroupProjective Let_def mul_by_a_is_mul_def)
    qed
  qed (simp add: GroupProjective)
qed

lemma proj_add_curve_poly:
  assumes "mul_by_a_is_mul C"
  shows "\<exists>c1 c2. proj_curve_poly (coeff_a C) (coeff_b C) (proj_add C p1 p2) =
            c1 * proj_curve_poly (coeff_a C) (coeff_b C) p1 + c2 * proj_curve_poly (coeff_a C) (coeff_b C) p2"
proof (cases p1; cases p2)
  fix x1 y1 z1 x2 y2 z2
  assume p1: "p1 = GroupProjective x1 y1 z1" and p2: "p2 = GroupProjective x2 y2 z2"
  consider "z1 = 0" | "z1 \<noteq> 0" "z2 = 0"
    | "z1 \<noteq> 0" "z2 \<noteq> 0" "x1 * z2\<^sup>2 = x2 * z1\<^sup>2 \<and> y1 * z2 * z2\<^sup>2 = y2 * z1 * z1\<^sup>2"
    | "z1 \<noteq> 0" "z2 \<noteq> 0" "\<not> (x1 * z2\<^sup>2 = x2 * z1\<^sup>2 \<and> y1 * z2 * z2\<^sup>2 = y2 * z1 * z1\<^sup>2)"
    by blast
  then show ?thesis
  proof cases
    case 1
    then show ?thesis by (intro exI [of _ 0] exI [of _ 1]) (simp add: p1 p2)
  next
    case 2
    then show ?thesis by (intro exI [of _ 1] exI [of _ 0]) (simp add: p1 p2)
  next
    case 3
    then show ?thesis
      using proj_double_curve_poly [OF assms, of p1]
      by (intro exI [of _ "64 * y1 ^ 6"] exI [of _ 0]) (simp add: p1 p2 Let_def)
  next
    case 4
    then have "proj_add C p1 p2 =
      (let z1z1 = z1\<^sup>2; z2z2 = z2\<^sup>2; u1 = x1 * z2z2; u2 = x2 * z1z1;
           s1 = y1 * z2 * z2z2; s2 = y2 * z1 * z1z1;
           h = u2 - u1; i = (2 * h)\<^sup>2; j = h * i; r = 2 * (s2 - s1); v = u1 * i;
           x3 = r\<^sup>2 - j - 2 * v
       in GroupProjective x3 (r * (v - x3) - 2 * (s1 * j)) (((z1 + z2)\<^sup>2 - z1z1 - z2z2) * h))"
      unfolding p1 p2 proj_add.simps Let_def using 4 by (simp only: if_False)
    then show ?thesis
      by (simp only: p1 p2 proj_add_poly)
  qed
qed

theorem proj_double_on_curve:
  assumes "mul_by_a_is_mul C" and "proj_on_curve C p"
  shows "proj_on_curve C (proj_double C p)"
  using assms by (simp add: proj_on_curve_poly proj_double_curve_poly)

theorem proj_add_on_curve:
  assumes "mul_by_a_is_mul C" and "proj_on_curve C p1" and "proj_on_curve C p2"
  shows "proj_on_curve C (proj_add C p1 p2)"
  using proj_add_curve_poly [OF assms(1), of p1 p2] assms(2,3) by (auto simp: proj_on_curve_poly)

lemma proj_zero_on_curve [simp]: "proj_on_curve C proj_zero"
  by (simp add: proj_on_curve_def proj_zero_def proj_curve_poly_def)

lemma proj_mul_bits_on_curve:
  assumes "mul_by_a_is_mul C" and "proj_on_curve C p"
  shows "proj_on_curve C (mul_bits (proj_group_ops C) p bits)"
proof -
  have inv: "proj_on_curve C
          (foldl (\<lambda>res i. let r = g_double (proj_group_ops C) res
                         in if i then g_add (proj_group_ops C) r p else r) acc bs)"
    if "proj_on_curve C acc" for acc bs
    using that
  proof (induction bs arbitrary: acc)
    case (Cons b bs)
    have "proj_on_curve C (let r = g_double (proj_group_ops C) acc
                          in if b then g_add (proj_group_ops C) r p else r)"
      using assms Cons.prems
      by (simp add: Let_def proj_group_ops_def proj_double_on_curve proj_add_on_curve)
    then show ?case
      using Cons.IH by simp
  qed simp
  show ?thesis
    unfolding mul_bits_def by (rule inv) (simp add: proj_group_ops_def)
qed

subsection \<open>Mixed addition is addition of the lifted affine point\<close>

lemma proj_add_mixed_eq_add:
  "proj_add_mixed C p q =
   (if proj_is_zero p \<and> ga_infinity q then p else proj_add C p (proj_from_affine q))"
  by (cases p; cases q)
    (simp add: proj_is_zero_def proj_zero_def Let_def algebra_simps power2_eq_square)

subsection \<open>Affine coordinates\<close>

lemma proj_from_affine_on_curve:
  assumes "mul_by_a_is_mul C"
  shows "proj_on_curve C (proj_from_affine p) \<longleftrightarrow> is_on_curve ring_field_ops C p"
  using assms
  by (cases p) (auto simp: is_on_curve_def ring_field_ops_def mul_by_a_is_mul_def proj_zero_def
      proj_on_curve_def proj_curve_poly_def power2_eq_square power3_eq_cube algebra_simps)

lemma curve_eq_scaled:
  fixes x y z u a b :: "'f::comm_ring_1"
  assumes "y\<^sup>2 = x ^ 3 + a * x * z ^ 4 + b * z ^ 6" and "z * u = 1"
  shows "(y * (u\<^sup>2 * u)) * (y * (u\<^sup>2 * u)) =
         x * u\<^sup>2 * (x * u\<^sup>2) * (x * u\<^sup>2) + a * (x * u\<^sup>2) + b"
proof -
  have "(y * (u\<^sup>2 * u)) * (y * (u\<^sup>2 * u)) = y\<^sup>2 * u ^ 6"
    by (simp add: algebra_simps power_def numeral_eq_Suc)
  also have "\<dots> = (x ^ 3 + a * x * z ^ 4 + b * z ^ 6) * u ^ 6"
    by (simp only: assms(1))
  also have "\<dots> = x * u\<^sup>2 * (x * u\<^sup>2) * (x * u\<^sup>2) + a * (x * u\<^sup>2) * (z * u) ^ 4 + b * (z * u) ^ 6"
    by (simp add: power2_eq_square algebra_simps power_def numeral_eq_Suc)
  finally show ?thesis
    by (simp add: assms(2))
qed

lemma proj_into_affine_on_curve:
  fixes C :: "'f::field sw_params"
  assumes "mul_by_a_is_mul C" and "proj_on_curve C p"
  shows "is_on_curve ring_field_ops C (proj_into_affine p)"
proof (cases p)
  case (GroupProjective x y z)
  have eq: "y\<^sup>2 = x ^ 3 + coeff_a C * x * z ^ 4 + coeff_b C * z ^ 6"
    using assms(2) by (simp add: GroupProjective proj_on_curve_def proj_curve_poly_def)
  show ?thesis
  proof (cases "z = 0")
    case False
    then have "z * inverse z = 1" by simp
    from curve_eq_scaled [OF eq this] False show ?thesis
      using assms(1) eq
      by (auto simp: GroupProjective is_on_curve_def ring_field_ops_def mul_by_a_is_mul_def
          Let_def power2_eq_square power3_eq_cube algebra_simps)
  qed (simp add: GroupProjective is_on_curve_def)
qed

lemma proj_into_from_affine:
  fixes p :: "'f::field sw_affine"
  assumes "\<not> ga_infinity p"
  shows "proj_into_affine (proj_from_affine p) = p"
  using assms by (cases p) simp

subsection \<open>Zero operands\<close>

text \<open>The early returns of the group law on zero: a zero left operand returns the right
  one and doubling leaves zero alone, so double-and-add started at zero stays there.\<close>

lemma proj_zero_z [simp]: "gp_z proj_zero = 0"
  by (simp add: proj_zero_def)

lemma proj_add_zero_left: "gp_z p = 0 \<Longrightarrow> proj_add C p q = q"
  by (cases p; cases q) simp

lemma proj_double_zero: "gp_z p = 0 \<Longrightarrow> proj_double C p = p"
  by (cases p) simp

lemma proj_mul_bits_zero: "mul_bits (proj_group_ops C) proj_zero bits = proj_zero"
proof -
  define step where "step = (\<lambda>res i. let r = g_double (proj_group_ops C) res
                                      in if i then g_add (proj_group_ops C) r proj_zero else r)"
  have "step proj_zero b = proj_zero" for b
    by (simp add: step_def proj_group_ops_def proj_double_zero proj_add_zero_left)
  then have fold: "foldl step proj_zero bs = proj_zero" for bs
    by (induction bs) simp_all
  have "g_zero (proj_group_ops C) = proj_zero"
    by (simp add: proj_group_ops_def)
  then show ?thesis
    unfolding mul_bits_def step_def [symmetric] by (simp only: fold)
qed

subsection \<open>The Jacobian law computes the affine chord-and-tangent law\<close>

text \<open>Doubling a representative of \<open>(x, y)\<close> gives a representative, with \<open>Z\<^sub>3 = 2 y Z\<^sup>4\<close>, of
  the tangent construction, whenever \<open>mul_by_a\<close> multiplies by \<open>COEFF_A\<close> and \<open>l\<close> is a tangent
  slope; addition of representatives of two points with distinct abscissae gives a
  representative, with \<open>Z\<^sub>3 = 2 (Z\<^sub>1 Z\<^sub>2)\<^sup>3 (x\<^sub>2 - x\<^sub>1)\<close>, of the chord construction
  (compare \<open>pdouble_correct\<close>, \<open>padd_correct\<close> of the AFP's elliptic-curve group law,
  stated there through division).\<close>

lemma proj_double_tangent:
  assumes a: "mul_by_a_is_mul C" and l: "2 * y * l = 3 * x\<^sup>2 + coeff_a C"
  shows "proj_double C (jacobian_repr (x, y) z) = jacobian_repr (affine_chord l x y x) (2 * y * z ^ 4)"
proof (cases "z = 0")
  case True
  then show ?thesis by (simp add: affine_chord_def Let_def power_def numeral_eq_Suc)
next
  case z: False
  define w where "w = 2 * y * z ^ 4"
  have "3 * (x * z\<^sup>2)\<^sup>2 + coeff_a C * (z\<^sup>2)\<^sup>2 = z ^ 4 * (3 * x\<^sup>2 + coeff_a C)"
    by (simp add: algebra_simps power_def numeral_eq_Suc)
  also have "\<dots> = w * l"
    unfolding w_def l [symmetric] by (simp add: algebra_simps)
  finally have m: "3 * (x * z\<^sup>2)\<^sup>2 + coeff_a C * (z\<^sup>2)\<^sup>2 = w * l" .
  have ring: "(x * z\<^sup>2)\<^sup>2 + 2 * (x * z\<^sup>2)\<^sup>2 + coeff_a C * (z\<^sup>2)\<^sup>2 = w * l"
    using m by (simp add: algebra_simps)
  show ?thesis
  proof (cases "coeff_a C = 0")
    case True
    then have e: "(x * z\<^sup>2)\<^sup>2 + 2 * (x * z\<^sup>2)\<^sup>2 = w * l"
      using ring by simp
    show ?thesis
      unfolding jacobian_repr.simps proj_double.simps Let_def if_not_P [OF z] if_P [OF True] e
      by (simp add: w_def affine_chord_def Let_def algebra_simps power_def numeral_eq_Suc)
  next
    case False
    have mul: "mul_by_a C ((z\<^sup>2)\<^sup>2) = coeff_a C * (z\<^sup>2)\<^sup>2"
      using a by (simp add: mul_by_a_is_mul_def)
    show ?thesis
      unfolding jacobian_repr.simps proj_double.simps Let_def if_not_P [OF z] if_not_P [OF False] mul ring
      by (simp add: w_def affine_chord_def Let_def algebra_simps power_def numeral_eq_Suc)
  qed
qed

lemma proj_add_chord:
  assumes z1: "z1 \<noteq> 0" and z2: "z2 \<noteq> 0"
    and x: "x1 * (z1 * z2)\<^sup>2 \<noteq> x2 * (z1 * z2)\<^sup>2" and l: "l * (x2 - x1) = y2 - y1"
  shows "proj_add C (jacobian_repr (x1, y1) z1) (jacobian_repr (x2, y2) z2) =
         jacobian_repr (affine_chord l x1 y1 x2) (2 * (z1 * z2) ^ 3 * (x2 - x1))"
proof -
  have y2: "y2 = y1 + l * (x2 - x1)"
    using l by (simp add: algebra_simps)
  have u: "\<not> (x1 * z1\<^sup>2 * z2\<^sup>2 = x2 * z2\<^sup>2 * z1\<^sup>2 \<and>
             y1 * z1 ^ 3 * z2 * z2\<^sup>2 = y2 * z2 ^ 3 * z1 * z1\<^sup>2)"
    using x by (simp add: power_mult_distrib algebra_simps)
  show ?thesis
    unfolding jacobian_repr.simps proj_add.simps Let_def if_not_P [OF z1] if_not_P [OF z2] if_not_P [OF u]
    unfolding y2
    by (simp add: affine_chord_def Let_def algebra_simps power_def numeral_eq_Suc)
qed
end
