(* ===== verification/Mnt4_298_G2_Group.thy ===== *)
theory Mnt4_298_G2_Group
  imports Mnt4_298_G2 Sw_Jacobian
begin

text \<open>
  The MNT4-298 G2 group: the configuration of \<open>g2.rs\<close> driving ark-ec's Jacobian group
  law.  The canonical elements of \<open>Fq2\<close> form the ring type \<open>mnt4_fq2\<close> (a \<open>typedef\<close>
  over the tower datatype, with the tower operations lifted), so that the generic law of
  \<open>Sw_Jacobian\<close> runs on them with the configuration's own \<open>mul_by_a\<close>.
\<close>

section \<open>The ring of canonical \<open>Fq2\<close> elements\<close>

typedef mnt4_fq2 = "{x. fq2_canon mnt4_Fq2_params x}"
  morphisms mnt4_fq2_rep mnt4_fq2_abs
  by (rule exI [of _ "Fq2 0 0"]) (simp add: fq_canon_def mnt4_consts)

setup_lifting type_definition_mnt4_fq2

lemma mnt4_modulus_pos: "0 < modulus mnt4_Fq2_params"
  by (simp add: mnt4_consts)

instantiation mnt4_fq2 :: comm_ring_1
begin

lift_definition zero_mnt4_fq2 :: mnt4_fq2 is "Fq2 0 0"
  using mnt4_modulus_pos by (simp add: fq_canon_def)

lift_definition one_mnt4_fq2 :: mnt4_fq2 is "Fq2 1 0"
  by (simp add: fq_canon_def mnt4_consts)

lift_definition plus_mnt4_fq2 :: "mnt4_fq2 \<Rightarrow> mnt4_fq2 \<Rightarrow> mnt4_fq2" is "fq2_add mnt4_Fq2_params"
  using mnt4_modulus_pos by (simp add: fq2_canon_closed)

lift_definition times_mnt4_fq2 :: "mnt4_fq2 \<Rightarrow> mnt4_fq2 \<Rightarrow> mnt4_fq2" is "fq2_mul mnt4_Fq2_params"
  using mnt4_modulus_pos by (simp add: fq2_canon_closed)

lift_definition uminus_mnt4_fq2 :: "mnt4_fq2 \<Rightarrow> mnt4_fq2" is "fq2_neg mnt4_Fq2_params"
  using mnt4_modulus_pos by (simp add: fq2_canon_closed)

lift_definition minus_mnt4_fq2 :: "mnt4_fq2 \<Rightarrow> mnt4_fq2 \<Rightarrow> mnt4_fq2" is
  "\<lambda>a b. fq2_add mnt4_Fq2_params a (fq2_neg mnt4_Fq2_params b)"
  using mnt4_modulus_pos by (simp add: fq2_canon_closed)

instance
proof
  fix a b c :: mnt4_fq2
  show "a + b + c = a + (b + c)" by transfer (rule fq2_add_laws(1))
  show "a + b = b + a" by transfer (rule fq2_add_laws(2))
  show "0 + a = a" by transfer (rule fq2_unit_laws(1))
  show "- a + a = 0" by transfer (rule fq2_add_laws(3))
  show "a - b = a + - b" by transfer (rule refl)
  show "a * b * c = a * (b * c)" by transfer (rule fq2_mul_assoc)
  show "a * b = b * a" by transfer (rule fq2_mul_commute)
  show "1 * a = a" by transfer (rule fq2_unit_laws(2))
  show "(a + b) * c = a * c + b * c" by transfer (rule fq2_add_mul)
  show "(0::mnt4_fq2) \<noteq> 1" by transfer simp
qed

end

section \<open>The configuration over the ring\<close>

text \<open>The associated types of \<open>ModelParameters\<close> and the point types \<open>g2.rs\<close> exports:
  \<open>G2Affine\<close> over the tower datatype, \<open>G2Projective\<close> (Jacobian) over the ring.\<close>

type_synonym mnt4_g2_BaseField = mnt4_fq2
type_synonym mnt4_g2_ScalarField = int
type_synonym mnt4_G2Affine = "fq2 sw_affine"
type_synonym mnt4_G2Projective = "mnt4_g2_BaseField sw_projective"

definition mnt4_g2_group_params :: "mnt4_g2_BaseField sw_params" where
  "mnt4_g2_group_params = map_sw_params mnt4_fq2_abs mnt4_fq2_rep mnt4_g2_parameters"

text \<open>\<open>into_projective\<close> of an affine point of the configuration, and the generator.\<close>

definition mnt4_g2_into_proj :: "mnt4_G2Affine \<Rightarrow> mnt4_G2Projective" where
  "mnt4_g2_into_proj p = proj_from_affine (map_sw_affine mnt4_fq2_abs p)"

definition mnt4_g2_generator_proj :: "mnt4_G2Projective" where
  "mnt4_g2_generator_proj = mnt4_g2_into_proj (prime_subgroup_generator mnt4_g2_parameters)"

section \<open>Lemmas\<close>

lemma mnt4_canon_consts:
  "fq2_canon mnt4_Fq2_params mnt4_G2_COEFF_A" "fq2_canon mnt4_Fq2_params mnt4_G2_COEFF_B"
  "fq2_canon mnt4_Fq2_params mnt4_G2_GENERATOR_X" "fq2_canon mnt4_Fq2_params mnt4_G2_GENERATOR_Y"
  by (simp_all add: fq_canon_def mnt4_consts mnt4_G2_COEFF_B_def mnt4_G2_GENERATOR_X_def
      mnt4_G2_GENERATOR_Y_def mnt4_G2_GENERATOR_X_C0_def mnt4_G2_GENERATOR_X_C1_def
      mnt4_G2_GENERATOR_Y_C0_def mnt4_G2_GENERATOR_Y_C1_def)

lemma mnt4_mul_by_a_canon: "fq2_canon mnt4_Fq2_params (mnt4_g2_mul_by_a x)"
  using mnt4_modulus_pos by (simp add: mnt4_mul_by_a_is_mul fq2_canon_closed)

lemma mnt4_fq2_rep_abs:
  "fq2_canon mnt4_Fq2_params x \<Longrightarrow> mnt4_fq2_rep (mnt4_fq2_abs x) = x"
  by (simp add: mnt4_fq2_abs_inverse)

lemmas mnt4_fq2_rep_simps =
  times_mnt4_fq2.rep_eq plus_mnt4_fq2.rep_eq mnt4_fq2_rep_inject [symmetric]
  mnt4_fq2_rep_abs mnt4_canon_consts mnt4_mul_by_a_canon fq2_canon_closed [OF mnt4_modulus_pos]

lemma mnt4_group_params_fields [simp]:
  "coeff_a mnt4_g2_group_params = mnt4_fq2_abs mnt4_G2_COEFF_A"
  "coeff_b mnt4_g2_group_params = mnt4_fq2_abs mnt4_G2_COEFF_B"
  "mul_by_a mnt4_g2_group_params = (\<lambda>x. mnt4_fq2_abs (mnt4_g2_mul_by_a (mnt4_fq2_rep x)))"
  by (simp_all add: mnt4_g2_group_params_def map_sw_params_def)

lemma mnt4_group_mul_by_a: "mul_by_a_is_mul mnt4_g2_group_params"
proof -
  have "mnt4_fq2_abs (mnt4_g2_mul_by_a (mnt4_fq2_rep x)) = mnt4_fq2_abs mnt4_G2_COEFF_A * x" for x
    using mnt4_fq2_rep [of x]
    by (simp add: mnt4_fq2_rep_simps mnt4_mul_by_a_is_mul)
  then show ?thesis
    by (simp add: mul_by_a_is_mul_def fun_eq_iff)
qed

text \<open>The inverse of \<open>2\<close> in the ring.\<close>

lemma mnt4_fq2_two_half:
  "mnt4_fq2_abs (Fq2 ((mnt4_Fq_MODULUS + 1) div 2) 0) +
   mnt4_fq2_abs (Fq2 ((mnt4_Fq_MODULUS + 1) div 2) 0) = 1"
proof -
  have c: "fq2_canon mnt4_Fq2_params (Fq2 ((mnt4_Fq_MODULUS + 1) div 2) 0)"
    by (simp add: fq_canon_def mnt4_consts)
  show ?thesis
    unfolding mnt4_fq2_rep_inject [symmetric]
    by (simp only: plus_mnt4_fq2.rep_eq one_mnt4_fq2.rep_eq mnt4_fq2_rep_abs [OF c])
      (simp add: mnt4_consts)
qed

text \<open>Curve membership over the ring is curve membership over the tower datatype.\<close>

lemma mnt4_ring_on_curve_iff:
  assumes "fq2_canon mnt4_Fq2_params x" and "fq2_canon mnt4_Fq2_params y"
  shows "is_on_curve ring_field_ops mnt4_g2_group_params
           (GroupAffine (mnt4_fq2_abs x) (mnt4_fq2_abs y) inf_flag) \<longleftrightarrow>
         is_on_curve (fq2_field_ops mnt4_Fq2_params) mnt4_g2_parameters (GroupAffine x y inf_flag)"
  using assms
  by (simp add: is_on_curve_def ring_field_ops_def fq2_field_ops_def Let_def
      mnt4_fq2_rep_simps)

lemma mnt4_generator_proj_on_curve:
  "proj_on_curve mnt4_g2_group_params mnt4_g2_generator_proj"
proof -
  have "is_on_curve ring_field_ops mnt4_g2_group_params
          (GroupAffine (mnt4_fq2_abs mnt4_G2_GENERATOR_X) (mnt4_fq2_abs mnt4_G2_GENERATOR_Y) False)"
    by (simp add: mnt4_ring_on_curve_iff mnt4_canon_consts mnt4_is_on_curve_unfold
        mnt4_generator_on_curve_eval)
  then show ?thesis
    unfolding mnt4_g2_generator_proj_def mnt4_g2_into_proj_def mnt4_generator_point
    by (simp only: sw_affine.map proj_from_affine_on_curve [OF mnt4_group_mul_by_a])
qed

text \<open>C22: doubling (\<open>double_in_place\<close>, whose \<open>M = 3 XX + a ZZ\<^sup>2\<close> calls the
  configuration's \<open>mul_by_a\<close>) keeps every point of the MNT4-298 G2 curve on the curve,
  in Jacobian coordinates \<open>Y\<^sup>2 = X\<^sup>3 + a X Z\<^sup>4 + b Z\<^sup>6\<close> over \<open>Fq2\<close>.\<close>

theorem mnt4_g2_double_on_curve:
  assumes "proj_on_curve mnt4_g2_group_params p"
  shows "proj_on_curve mnt4_g2_group_params (proj_double mnt4_g2_group_params p)"
  by (rule proj_double_on_curve [OF mnt4_group_mul_by_a assms])

text \<open>C24: addition of two points of the MNT4-298 G2 curve (\<open>add-2007-bl\<close>, including
  its doubling and opposite-point cases) is again a point of the curve.\<close>

theorem mnt4_g2_add_on_curve:
  assumes "proj_on_curve mnt4_g2_group_params p" and "proj_on_curve mnt4_g2_group_params q"
  shows "proj_on_curve mnt4_g2_group_params (proj_add mnt4_g2_group_params p q)"
  by (rule proj_add_on_curve [OF mnt4_group_mul_by_a assms])

text \<open>C27: every multiple of the MNT4-298 G2 generator that double-and-add
  (\<open>mul_bits\<close>) computes, for any bit string, is a point of the curve.\<close>

theorem mnt4_g2_generator_multiples_on_curve:
  "proj_on_curve mnt4_g2_group_params
     (mul_bits (proj_group_ops mnt4_g2_group_params) mnt4_g2_generator_proj bits)"
  by (rule proj_mul_bits_on_curve [OF mnt4_group_mul_by_a mnt4_generator_proj_on_curve])

text \<open>Witnesses of C22 and C24 at the generator (lifted to Jacobian coordinates) and its
  double.\<close>

theorem mnt4_g2_double_on_curve_witness:
  "proj_on_curve mnt4_g2_group_params (proj_double mnt4_g2_group_params mnt4_g2_generator_proj)"
  by (rule mnt4_g2_double_on_curve [OF mnt4_generator_proj_on_curve])

theorem mnt4_g2_add_on_curve_witness:
  "proj_on_curve mnt4_g2_group_params
     (proj_add mnt4_g2_group_params mnt4_g2_generator_proj
        (proj_double mnt4_g2_group_params mnt4_g2_generator_proj))"
  by (rule mnt4_g2_add_on_curve [OF mnt4_generator_proj_on_curve
        proj_double_on_curve [OF mnt4_group_mul_by_a mnt4_generator_proj_on_curve]])

text \<open>C21: on canonical coordinates, the Jacobian point \<open>into_projective(p)\<close> satisfies
  the projective curve invariant exactly when the code's affine check \<open>is_on_curve\<close>
  (with the configuration's \<open>mul_by_a\<close>, over the tower datatype) accepts \<open>p\<close>: the
  Jacobian model refines the configuration's curve.\<close>

theorem mnt4_g2_into_proj_on_curve_iff:
  assumes "fq2_canon mnt4_Fq2_params x" and "fq2_canon mnt4_Fq2_params y"
  shows "proj_on_curve mnt4_g2_group_params (mnt4_g2_into_proj (GroupAffine x y b)) \<longleftrightarrow>
         is_on_curve (fq2_field_ops mnt4_Fq2_params) mnt4_g2_parameters (GroupAffine x y b)"
  using mnt4_ring_on_curve_iff [OF assms, of b]
  by (simp add: mnt4_g2_into_proj_def proj_from_affine_on_curve [OF mnt4_group_mul_by_a]
      del: proj_from_affine.simps)

text \<open>Witness of C21 at the generator's coordinates.\<close>

theorem mnt4_g2_into_proj_on_curve_iff_witness:
  "proj_on_curve mnt4_g2_group_params
     (mnt4_g2_into_proj (GroupAffine mnt4_G2_GENERATOR_X mnt4_G2_GENERATOR_Y False))"
  using mnt4_g2_into_proj_on_curve_iff [OF mnt4_canon_consts(3,4), of False]
  by (simp add: mnt4_is_on_curve_unfold mnt4_generator_on_curve_eval)

text \<open>C15: boundary inputs of double-and-add in the MNT4-298 G2 group: clearing the
  cofactor of the point at infinity gives the point at infinity, and a zero scalar (a slice
  of zero limbs, whose bits are all unset, so the loop body never runs) sends every point to
  the point at infinity.\<close>

theorem mnt4_g2_mul_bits_boundary:
  "scale_by_cofactor (proj_group_ops mnt4_g2_group_params) mnt4_g2_parameters proj_zero = proj_zero \<and>
   mul_bits (proj_group_ops mnt4_g2_group_params) p (bit_iterator_be (replicate k 0)) = proj_zero"
proof
  show "scale_by_cofactor (proj_group_ops mnt4_g2_group_params) mnt4_g2_parameters proj_zero =
        proj_zero"
    unfolding scale_by_cofactor_def by (rule proj_mul_bits_zero)
next
  have "mul_bits (proj_group_ops mnt4_g2_group_params) p (bit_iterator_be (replicate k 0)) =
        g_zero (proj_group_ops mnt4_g2_group_params)"
    by (rule mul_bits_no_set_bit) (simp add: bit_iterator_be_zero_limbs)
  then show "mul_bits (proj_group_ops mnt4_g2_group_params) p (bit_iterator_be (replicate k 0)) =
             proj_zero"
    by (simp add: proj_group_ops_def)
qed

text \<open>C30: the Jacobian group law of the MNT4-298 G2 configuration computes the affine
  chord-and-tangent law of \<open>y\<^sup>2 = x\<^sup>3 + A x + B\<close> over \<open>Fq2\<close>, \<open>A\<close> the \<open>COEFF_A\<close> of \<open>g2.rs\<close>:
  doubling (\<open>double_in_place\<close>, calling the configuration's \<open>mul_by_a\<close>) a Jacobian
  representative of \<open>(x, y)\<close> yields a representative of \<open>(l\<^sup>2 - 2x, l (x - x\<^sub>3) - y)\<close>
  for a tangent slope \<open>l\<close> (\<open>2 y l = 3 x\<^sup>2 + A\<close>), and adding (\<open>add_assign\<close>)
  representatives of two points with distinct abscissae yields a representative of their
  chord sum for the chord slope \<open>k\<close>.\<close>

theorem mnt4_g2_chord_tangent:
  "(2 * y * l = 3 * x\<^sup>2 + mnt4_fq2_abs mnt4_G2_COEFF_A \<longrightarrow>
      proj_double mnt4_g2_group_params (jacobian_repr (x, y) z) =
      jacobian_repr (affine_chord l x y x) (2 * y * z ^ 4)) \<and>
   (z1 \<noteq> 0 \<and> z2 \<noteq> 0 \<and> x1 * (z1 * z2)\<^sup>2 \<noteq> x2 * (z1 * z2)\<^sup>2 \<and> k * (x2 - x1) = y2 - y1 \<longrightarrow>
      proj_add mnt4_g2_group_params (jacobian_repr (x1, y1) z1) (jacobian_repr (x2, y2) z2) =
      jacobian_repr (affine_chord k x1 y1 x2) (2 * (z1 * z2) ^ 3 * (x2 - x1)))"
  using proj_double_tangent [OF mnt4_group_mul_by_a, of y l x z]
    proj_add_chord [of z1 z2 x1 x2 k y2 y1 mnt4_g2_group_params]
  by simp

text \<open>Witness of C30: the tangent at \<open>(0, 1)\<close>, of slope \<open>A / 2\<close>, and the chord through
  \<open>(0, 0)\<close> and \<open>(1, 1)\<close>, all with \<open>Z = 1\<close>.\<close>

theorem mnt4_g2_chord_tangent_witness:
  "proj_double mnt4_g2_group_params (jacobian_repr (0, 1) 1) =
     jacobian_repr
       (affine_chord (mnt4_fq2_abs mnt4_G2_COEFF_A * mnt4_fq2_abs (Fq2 ((mnt4_Fq_MODULUS + 1) div 2) 0))
          0 1 0) 2 \<and>
   proj_add mnt4_g2_group_params (jacobian_repr (0, 0) 1) (jacobian_repr (1, 1) 1) =
     jacobian_repr (affine_chord 1 0 0 1) 2"
proof -
  define h where "h = mnt4_fq2_abs (Fq2 ((mnt4_Fq_MODULUS + 1) div 2) 0)"
  have d: "2 * 1 * (mnt4_fq2_abs mnt4_G2_COEFF_A * h) = 3 * 0\<^sup>2 + mnt4_fq2_abs mnt4_G2_COEFF_A"
  proof -
    have "2 * 1 * (mnt4_fq2_abs mnt4_G2_COEFF_A * h) = mnt4_fq2_abs mnt4_G2_COEFF_A * (2 * h)"
      by (simp add: ac_simps)
    then show ?thesis
      using mnt4_fq2_two_half unfolding h_def [symmetric] mult_2 by simp
  qed
  have a: "(1::mnt4_fq2) \<noteq> 0 \<and> (1::mnt4_fq2) \<noteq> 0 \<and> 0 * (1 * 1)\<^sup>2 \<noteq> 1 * (1 * (1::mnt4_fq2))\<^sup>2 \<and>
      1 * (1 - 0) = 1 - (0::mnt4_fq2)"
    by simp
  have e: "2 * 1 * (1::mnt4_fq2) ^ 4 = 2" "2 * (1 * 1) ^ 3 * (1 - 0) = (2::mnt4_fq2)"
    by simp_all
  show ?thesis
    using mnt4_g2_chord_tangent [of 1 "mnt4_fq2_abs mnt4_G2_COEFF_A * h" 0 1 1 1 0 1 1 1 0,
        unfolded e] d a
    unfolding h_def by blast
qed

end
