(* ===== verification/Mnt6_298_G2.thy ===== *)
theory Mnt6_298_G2
  imports Sw_Curve
begin

text \<open>
  The G2 curve configuration of MNT6-298 (\<open>src/curves-0.3.0/mnt6_298/src/curves/g2.rs\<close>):
  a short-Weierstrass curve over the cubic tower \<open>Fq3 = Fq[x]/(x\<^sup>3 - 5)\<close>, its constants and
  its \<open>mul_by_a\<close>.  The crate constants that \<open>g2.rs\<close> imports (the field modulus, the
  tower's non-residue, the G1 coefficients and \<open>TWIST_COEFF_A\<close>) come first, as the crate
  defines them.  The twist coefficient is \<open>A = a x\<^sup>2 = (0, 0, a)\<close>, so \<open>A e\<close> rotates the
  coefficients of \<open>e\<close> and scales the wrapped ones by \<open>5 a = 55\<close>.
\<close>

section \<open>Crate constants used by \<open>g2.rs\<close>\<close>

definition mnt6_Fq_MODULUS :: int where
  "mnt6_Fq_MODULUS = 475922286169261325753349249653048451545124878552823515553267735739164647307408490559963137"

definition mnt6_Fr_MODULUS :: int where
  "mnt6_Fr_MODULUS = 475922286169261325753349249653048451545124879242694725395555128576210262817955800483758081"

definition mnt6_Fq3_NONRESIDUE :: fq where
  "mnt6_Fq3_NONRESIDUE = 5"

definition mnt6_Fq3_params :: ext_params where
  "mnt6_Fq3_params = \<lparr>modulus = mnt6_Fq_MODULUS, nonresidue = mnt6_Fq3_NONRESIDUE\<rparr>"

definition mnt6_FQ_ZERO :: fq where
  "mnt6_FQ_ZERO = 0"

definition mnt6_G1_COEFF_A :: fq where
  "mnt6_G1_COEFF_A = 11"

definition mnt6_G1_COEFF_B :: fq where
  "mnt6_G1_COEFF_B = 106700080510851735677967319632585352256454251201367587890185989362936000262606668469523074"

definition mnt6_TWIST_COEFF_A :: fq3 where
  "mnt6_TWIST_COEFF_A = Fq3 mnt6_FQ_ZERO mnt6_FQ_ZERO mnt6_G1_COEFF_A"

section \<open>\<open>g2.rs\<close>\<close>

definition mnt6_MUL_BY_A_C0 :: fq where
  "mnt6_MUL_BY_A_C0 = 55"

definition mnt6_MUL_BY_A_C1 :: fq where
  "mnt6_MUL_BY_A_C1 = 55"

definition mnt6_MUL_BY_A_C2 :: fq where
  "mnt6_MUL_BY_A_C2 = mnt6_G1_COEFF_A"

definition mnt6_G2_COEFF_A :: fq3 where
  "mnt6_G2_COEFF_A = mnt6_TWIST_COEFF_A"

definition mnt6_G2_COEFF_B :: fq3 where
  "mnt6_G2_COEFF_B =
     Fq3 57578116384997352636487348509878309737146377454014423897662211075515354005624851787652233
         mnt6_FQ_ZERO mnt6_FQ_ZERO"

definition mnt6_G2_COFACTOR :: "u64 list" where
  "mnt6_G2_COFACTOR =
     [15308190245346869248, 10669098443577192943, 4561413759929581409, 3680089780298582849,
      17336300687782721465, 10745756320947240891, 17479264233688728128, 16828697388537672097,
      4184034152442024798, 915787]"

definition mnt6_G2_COFACTOR_INV :: int where
  "mnt6_G2_COFACTOR_INV = 79320381028210220958891541608841408590854146655427655872973753568875979721417185067925504"

fun mnt6_g2_mul_by_a :: "fq3 \<Rightarrow> fq3" where
  "mnt6_g2_mul_by_a (Fq3 c0 c1 c2) =
     Fq3 (fq_mul mnt6_Fq_MODULUS mnt6_MUL_BY_A_C0 c1)
         (fq_mul mnt6_Fq_MODULUS mnt6_MUL_BY_A_C1 c2)
         (fq_mul mnt6_Fq_MODULUS mnt6_MUL_BY_A_C2 c0)"

definition mnt6_G2_GENERATOR_X_C0 :: fq where
  "mnt6_G2_GENERATOR_X_C0 = 421456435772811846256826561593908322288509115489119907560382401870203318738334702321297427"

definition mnt6_G2_GENERATOR_X_C1 :: fq where
  "mnt6_G2_GENERATOR_X_C1 = 103072927438548502463527009961344915021167584706439945404959058962657261178393635706405114"

definition mnt6_G2_GENERATOR_X_C2 :: fq where
  "mnt6_G2_GENERATOR_X_C2 = 143029172143731852627002926324735183809768363301149009204849580478324784395590388826052558"

definition mnt6_G2_GENERATOR_Y_C0 :: fq where
  "mnt6_G2_GENERATOR_Y_C0 = 464673596668689463130099227575639512541218133445388869383893594087634649237515554342751377"

definition mnt6_G2_GENERATOR_Y_C1 :: fq where
  "mnt6_G2_GENERATOR_Y_C1 = 100642907501977375184575075967118071807821117960152743335603284583254620685343989304941678"

definition mnt6_G2_GENERATOR_Y_C2 :: fq where
  "mnt6_G2_GENERATOR_Y_C2 = 123019855502969896026940545715841181300275180157288044663051565390506010149881373807142903"

definition mnt6_G2_GENERATOR_X :: fq3 where
  "mnt6_G2_GENERATOR_X = Fq3 mnt6_G2_GENERATOR_X_C0 mnt6_G2_GENERATOR_X_C1 mnt6_G2_GENERATOR_X_C2"

definition mnt6_G2_GENERATOR_Y :: fq3 where
  "mnt6_G2_GENERATOR_Y = Fq3 mnt6_G2_GENERATOR_Y_C0 mnt6_G2_GENERATOR_Y_C1 mnt6_G2_GENERATOR_Y_C2"

definition mnt6_G2_AFFINE_GENERATOR_COEFFS :: "fq3 \<times> fq3" where
  "mnt6_G2_AFFINE_GENERATOR_COEFFS = (mnt6_G2_GENERATOR_X, mnt6_G2_GENERATOR_Y)"

text \<open>The \<open>impl SWModelParameters for Parameters\<close> block as a value of the trait record.\<close>

definition mnt6_g2_parameters :: "fq3 sw_params" where
  "mnt6_g2_parameters =
     \<lparr>coeff_a = mnt6_G2_COEFF_A, coeff_b = mnt6_G2_COEFF_B, cofactor = mnt6_G2_COFACTOR,
      cofactor_inv = mnt6_G2_COFACTOR_INV,
      affine_generator_coeffs = mnt6_G2_AFFINE_GENERATOR_COEFFS,
      mul_by_a = mnt6_g2_mul_by_a\<rparr>"

text \<open>The cubic-twist formula of the design (its section 4.1), which embeds \<open>A\<close> along
  \<open>x\<^sup>1\<close> as \<open>K x\<close> with \<open>K = \<beta> a\<close>: \<open>mul_by_a(e) = (K \<beta> c2, K c0, K c1)\<close>.\<close>

fun spec_cubic_mul_by_a :: "int \<Rightarrow> fq \<Rightarrow> fq \<Rightarrow> fq3 \<Rightarrow> fq3" where
  "spec_cubic_mul_by_a q \<beta> a (Fq3 c0 c1 c2) =
     Fq3 (fq_mul q (fq_mul q (fq_mul q \<beta> a) \<beta>) c2) (fq_mul q (fq_mul q \<beta> a) c0)
         (fq_mul q (fq_mul q \<beta> a) c1)"

section \<open>Lemmas\<close>

lemmas mnt6_consts [curve_consts] =
  mnt6_Fq_MODULUS_def mnt6_Fq3_NONRESIDUE_def mnt6_FQ_ZERO_def mnt6_G1_COEFF_A_def
  mnt6_TWIST_COEFF_A_def mnt6_MUL_BY_A_C0_def mnt6_MUL_BY_A_C1_def mnt6_MUL_BY_A_C2_def
  mnt6_G2_COEFF_A_def mnt6_Fq3_params_def

lemma mnt6_mul_by_a_is_mul:
  "mnt6_g2_mul_by_a e = fq3_mul mnt6_Fq3_params mnt6_G2_COEFF_A e"
proof (cases e)
  case (Fq3 c0 c1 c2)
  then show ?thesis
    by (simp add: mnt6_consts fq_mul_def algebra_simps)
qed

lemma mnt6_generator_point:
  "prime_subgroup_generator mnt6_g2_parameters =
   GroupAffine mnt6_G2_GENERATOR_X mnt6_G2_GENERATOR_Y False"
  by (simp add: prime_subgroup_generator_def mnt6_g2_parameters_def mnt6_G2_AFFINE_GENERATOR_COEFFS_def)

lemma mnt6_generator_on_curve_eval:
  "fq3_mul mnt6_Fq3_params mnt6_G2_GENERATOR_Y mnt6_G2_GENERATOR_Y =
   fq3_add mnt6_Fq3_params
     (fq3_add mnt6_Fq3_params
        (fq3_mul mnt6_Fq3_params (fq3_mul mnt6_Fq3_params mnt6_G2_GENERATOR_X mnt6_G2_GENERATOR_X)
           mnt6_G2_GENERATOR_X)
        (mnt6_g2_mul_by_a mnt6_G2_GENERATOR_X))
     mnt6_G2_COEFF_B"
  by code_simp

lemma mnt6_is_on_curve_unfold:
  "is_on_curve (fq3_field_ops mnt6_Fq3_params) mnt6_g2_parameters (GroupAffine x y z) \<longleftrightarrow>
   z \<or> fq3_mul mnt6_Fq3_params y y =
     fq3_add mnt6_Fq3_params
       (fq3_add mnt6_Fq3_params (fq3_mul mnt6_Fq3_params (fq3_mul mnt6_Fq3_params x x) x)
          (mnt6_g2_mul_by_a x))
       mnt6_G2_COEFF_B"
  by (simp add: is_on_curve_def mnt6_g2_parameters_def fq3_field_ops_def
      Let_def)

lemma mnt6_cofactor_value:
  "limbs_value mnt6_G2_COFACTOR = 226502022472576270196498690498308461791828762732602586162207535351960270082712694977333372361549082214519252261735048131889018501404377856786623430385820659037970876666767495659520"
  by (simp add: mnt6_G2_COFACTOR_def)

lemma mnt6_params_fields [simp]:
  "coeff_a mnt6_g2_parameters = mnt6_G2_COEFF_A"
  "coeff_b mnt6_g2_parameters = mnt6_G2_COEFF_B"
  "cofactor mnt6_g2_parameters = mnt6_G2_COFACTOR"
  "mul_by_a mnt6_g2_parameters = mnt6_g2_mul_by_a"
  "f_mul (fq3_field_ops mnt6_Fq3_params) = fq3_mul mnt6_Fq3_params"
  by (simp_all add: mnt6_g2_parameters_def fq3_field_ops_def)

text \<open>C1: the MNT6-298 G2 \<open>mul_by_a\<close> computes the product with \<open>COEFF_A\<close> in the
  quotient ring \<open>Fq[x]/(x\<^sup>3 - 5)\<close>, for every tower element.\<close>

theorem mnt6_g2_mul_by_a_correct:
  "fq3_coeffs (mnt6_g2_mul_by_a e) =
   tower_mul mnt6_Fq_MODULUS mnt6_Fq3_NONRESIDUE (fq3_coeffs mnt6_G2_COEFF_A) (fq3_coeffs e)"
  using fq3_mul_tower [of mnt6_Fq3_params mnt6_G2_COEFF_A e]
  by (simp add: mnt6_mul_by_a_is_mul mnt6_Fq3_params_def)

text \<open>C3: the MNT6-298 G2 generator \<open>(G2_GENERATOR_X, G2_GENERATOR_Y)\<close> satisfies the
  curve-membership check of the group, with the configuration's \<open>mul_by_a\<close> and
  \<open>COEFF_B\<close>.\<close>

theorem mnt6_g2_generator_on_curve:
  "is_on_curve (fq3_field_ops mnt6_Fq3_params) mnt6_g2_parameters (prime_subgroup_generator mnt6_g2_parameters)"
  by (simp only: mnt6_generator_point mnt6_is_on_curve_unfold mnt6_generator_on_curve_eval simp_thms)

text \<open>C5: \<open>COFACTOR_INV\<close> is a canonical element of \<open>Fr\<close> and the inverse of the
  cofactor modulo the subgroup order \<open>r\<close>: \<open>h * h\<^sup>-\<^sup>1 = 1 (mod r)\<close>.\<close>

theorem mnt6_g2_cofactor_inv:
  "(int (limbs_value mnt6_G2_COFACTOR) * mnt6_G2_COFACTOR_INV) mod mnt6_Fr_MODULUS = 1 \<and>
   fq_canon mnt6_Fr_MODULUS mnt6_G2_COFACTOR_INV"
  by (simp add: mnt6_cofactor_value mnt6_G2_COFACTOR_INV_def mnt6_Fr_MODULUS_def fq_canon_def)

text \<open>C7: the limb slice \<open>COFACTOR\<close> denotes the decimal cofactor of its doc comment, and
  it is exactly the 10-limb little-endian encoding of that number.\<close>

theorem mnt6_g2_cofactor_limbs:
  "limbs_value mnt6_G2_COFACTOR = 226502022472576270196498690498308461791828762732602586162207535351960270082712694977333372361549082214519252261735048131889018501404377856786623430385820659037970876666767495659520 \<and>
   to_limbs 10 226502022472576270196498690498308461791828762732602586162207535351960270082712694977333372361549082214519252261735048131889018501404377856786623430385820659037970876666767495659520 = mnt6_G2_COFACTOR"
proof -
  have "to_limbs (length mnt6_G2_COFACTOR) (limbs_value mnt6_G2_COFACTOR) = mnt6_G2_COFACTOR"
    by (rule to_limbs_limbs_value)
  moreover have "length mnt6_G2_COFACTOR = 10"
    by (simp add: mnt6_G2_COFACTOR_def)
  ultimately show ?thesis
    by (simp add: mnt6_cofactor_value)
qed

text \<open>C9: clearing the cofactor of a point (\<open>scale_by_cofactor\<close>: double-and-add over
  \<open>BitIteratorBE::new(COFACTOR)\<close>) multiplies it by the decimal cofactor, in any group
  whose addition is associative with a right identity and whose doubling adds a point to
  itself.\<close>

theorem mnt6_g2_scale_by_cofactor:
  assumes "\<And>a b c. g_add G (g_add G a b) c = g_add G a (g_add G b c)"
      and "\<And>a. g_add G a (g_zero G) = a"
      and "\<And>a. g_double G a = g_add G a a"
  shows "scale_by_cofactor G mnt6_g2_parameters p = scalar_mul G 226502022472576270196498690498308461791828762732602586162207535351960270082712694977333372361549082214519252261735048131889018501404377856786623430385820659037970876666767495659520 p"
  by (simp add: scale_by_cofactor_def mul_bits_limbs [OF assms] mnt6_cofactor_value)

text \<open>C11: with the configuration's \<open>mul_by_a\<close>, the group's curve-membership check is
  exactly the Weierstrass equation \<open>y\<^sup>2 = x\<^sup>3 + A x + B\<close> over \<open>Fq3\<close> with the
  configuration's \<open>COEFF_A\<close> and \<open>COEFF_B\<close>.\<close>

theorem mnt6_g2_is_on_curve_weierstrass:
  "is_on_curve (fq3_field_ops mnt6_Fq3_params) mnt6_g2_parameters p \<longleftrightarrow>
   on_weierstrass (fq3_field_ops mnt6_Fq3_params) mnt6_G2_COEFF_A mnt6_G2_COEFF_B p"
  using is_on_curve_on_weierstrass [of mnt6_g2_parameters "fq3_field_ops mnt6_Fq3_params" p]
  by (simp add: mnt6_mul_by_a_is_mul)

text \<open>C13: cofactor clearing's loop over \<open>BitIteratorBE::new(COFACTOR)\<close> terminates:
  draining the iterator calls \<open>next\<close> exactly 640 times (ten 64-bit limbs) before it
  returns \<open>None\<close>, and the bits it yields denote the cofactor.\<close>

theorem mnt6_g2_cofactor_iterator_terminates:
  "length (bit_iter_collect (bit_iter_new mnt6_G2_COFACTOR)) = 640 \<and>
   bits_be_value (bit_iter_collect (bit_iter_new mnt6_G2_COFACTOR)) =
     226502022472576270196498690498308461791828762732602586162207535351960270082712694977333372361549082214519252261735048131889018501404377856786623430385820659037970876666767495659520"
proof -
  have "length (bit_iterator_be mnt6_G2_COFACTOR) = 640"
    by (simp add: bit_iterator_be_bits_from mnt6_G2_COFACTOR_def)
  moreover have "bits_be_value (bit_iterator_be mnt6_G2_COFACTOR) =
     226502022472576270196498690498308461791828762732602586162207535351960270082712694977333372361549082214519252261735048131889018501404377856786623430385820659037970876666767495659520"
    by (simp only: bit_iterator_be_value mnt6_cofactor_value)
  ultimately show ?thesis
    by (simp only: bit_iterator_be_def)
qed

text \<open>Divergence from the design: the code's cubic \<open>mul_by_a\<close> is not the formula of the design's section 4.1,
  \<open>(K \<beta> c2, K c0, K c1)\<close> with \<open>K = \<beta> a\<close>: on \<open>e = 1\<close> the code yields
  \<open>(0, 0, 11)\<close> (multiplication by \<open>a x\<^sup>2\<close>, the crate's \<open>TWIST_COEFF_A\<close>) and the
  formula \<open>(0, 55, 0)\<close> (multiplication by \<open>\<beta> a x\<close>).\<close>

theorem mnt6_g2_mul_by_a_not_spec_formula:
  "mnt6_g2_mul_by_a (Fq3 1 0 0) = Fq3 0 0 11 \<and>
   spec_cubic_mul_by_a mnt6_Fq_MODULUS mnt6_Fq3_NONRESIDUE mnt6_G1_COEFF_A (Fq3 1 0 0) = Fq3 0 55 0"
  by (simp add: mnt6_consts fq_mul_def)

text \<open>Witness of C9 at the additive monoid of \<open>nat\<close> and the point \<open>1\<close>.\<close>

theorem mnt6_g2_scale_by_cofactor_witness:
  "scale_by_cofactor nat_add_ops mnt6_g2_parameters 1 = scalar_mul nat_add_ops 226502022472576270196498690498308461791828762732602586162207535351960270082712694977333372361549082214519252261735048131889018501404377856786623430385820659037970876666767495659520 1"
  by (rule mnt6_g2_scale_by_cofactor) (simp_all add: nat_add_ops_def)

text \<open>C16: the twist coefficients are the base curve's, moved to the twist by the tower's
  generator \<open>X = x\<close>: \<open>COEFF_A = a X\<^sup>2\<close> and \<open>COEFF_B = b X\<^sup>3\<close> in \<open>Fq3\<close> (the
  embedding \<open>mul_by_a\<close> relies on).\<close>

theorem mnt6_g2_twist_coefficients:
  "mnt6_G2_COEFF_A = fq3_mul mnt6_Fq3_params (Fq3 mnt6_G1_COEFF_A 0 0) (fq3_mul mnt6_Fq3_params (Fq3 0 1 0) (Fq3 0 1 0)) \<and>
   mnt6_G2_COEFF_B =
     fq3_mul mnt6_Fq3_params (Fq3 mnt6_G1_COEFF_B 0 0)
       (fq3_mul mnt6_Fq3_params (Fq3 0 1 0) (fq3_mul mnt6_Fq3_params (Fq3 0 1 0) (Fq3 0 1 0)))"
  by (simp add: mnt6_consts mnt6_G1_COEFF_B_def mnt6_G2_COEFF_B_def)

text \<open>C18: \<open>COFACTOR\<close> times the subgroup order \<open>r\<close> is the number of points of the
  twist over \<open>Fq^3\<close>, \<open>q^3 + 1 + t\<^sub>3\<close>, where \<open>t = q + 1 - r\<close> is the trace of
  the G1 curve (of prime order \<open>r\<close>).\<close>

theorem mnt6_g2_cofactor_twist_order:
  "int (limbs_value mnt6_G2_COFACTOR) * mnt6_Fr_MODULUS = twist_order mnt6_Fq_MODULUS mnt6_Fr_MODULUS 3"
  unfolding twist_order_3 mnt6_cofactor_value
  by (simp add: Let_def mnt6_Fr_MODULUS_def mnt6_Fq_MODULUS_def)

end
