(* ===== verification/Mnt6_298_G2_Group.thy ===== *)
theory Mnt6_298_G2_Group
  imports Mnt6_298_G2 Sw_Jacobian
begin

text \<open>
  The MNT6-298 G2 group: the configuration of \<open>g2.rs\<close> driving ark-ec's Jacobian group
  law.  The canonical elements of \<open>Fq3\<close> form the ring type \<open>mnt6_fq3\<close> (a \<open>typedef\<close>
  over the tower datatype, with the tower operations lifted), so that the generic law of
  \<open>Sw_Jacobian\<close> runs on them with the configuration's own \<open>mul_by_a\<close>.
\<close>

section \<open>The ring of canonical \<open>Fq3\<close> elements\<close>

typedef mnt6_fq3 = "{x. fq3_canon mnt6_Fq3_params x}"
  morphisms mnt6_fq3_rep mnt6_fq3_abs
  by (rule exI [of _ "Fq3 0 0 0"]) (simp add: fq_canon_def mnt6_consts)

setup_lifting type_definition_mnt6_fq3

lemma mnt6_modulus_pos: "0 < modulus mnt6_Fq3_params"
  by (simp add: mnt6_consts)

instantiation mnt6_fq3 :: comm_ring_1
begin

lift_definition zero_mnt6_fq3 :: mnt6_fq3 is "Fq3 0 0 0"
  using mnt6_modulus_pos by (simp add: fq_canon_def)

lift_definition one_mnt6_fq3 :: mnt6_fq3 is "Fq3 1 0 0"
  by (simp add: fq_canon_def mnt6_consts)

lift_definition plus_mnt6_fq3 :: "mnt6_fq3 \<Rightarrow> mnt6_fq3 \<Rightarrow> mnt6_fq3" is "fq3_add mnt6_Fq3_params"
  using mnt6_modulus_pos by (simp add: fq3_canon_closed)

lift_definition times_mnt6_fq3 :: "mnt6_fq3 \<Rightarrow> mnt6_fq3 \<Rightarrow> mnt6_fq3" is "fq3_mul mnt6_Fq3_params"
  using mnt6_modulus_pos by (simp add: fq3_canon_closed)

lift_definition uminus_mnt6_fq3 :: "mnt6_fq3 \<Rightarrow> mnt6_fq3" is "fq3_neg mnt6_Fq3_params"
  using mnt6_modulus_pos by (simp add: fq3_canon_closed)

lift_definition minus_mnt6_fq3 :: "mnt6_fq3 \<Rightarrow> mnt6_fq3 \<Rightarrow> mnt6_fq3" is
  "\<lambda>a b. fq3_add mnt6_Fq3_params a (fq3_neg mnt6_Fq3_params b)"
  using mnt6_modulus_pos by (simp add: fq3_canon_closed)

instance
proof
  fix a b c :: mnt6_fq3
  show "a + b + c = a + (b + c)" by transfer (rule fq3_add_laws(1))
  show "a + b = b + a" by transfer (rule fq3_add_laws(2))
  show "0 + a = a" by transfer (rule fq3_unit_laws(1))
  show "- a + a = 0" by transfer (rule fq3_add_laws(3))
  show "a - b = a + - b" by transfer (rule refl)
  show "a * b * c = a * (b * c)" by transfer (rule fq3_mul_assoc)
  show "a * b = b * a" by transfer (rule fq3_mul_commute)
  show "1 * a = a" by transfer (rule fq3_unit_laws(2))
  show "(a + b) * c = a * c + b * c" by transfer (rule fq3_add_mul)
  show "(0::mnt6_fq3) \<noteq> 1" by transfer simp
qed

end

section \<open>The configuration over the ring\<close>

text \<open>The associated types of \<open>ModelParameters\<close> and the point types \<open>g2.rs\<close> exports:
  \<open>G2Affine\<close> over the tower datatype, \<open>G2Projective\<close> (Jacobian) over the ring.\<close>

type_synonym mnt6_g2_BaseField = mnt6_fq3
type_synonym mnt6_g2_ScalarField = int
type_synonym mnt6_G2Affine = "fq3 sw_affine"
type_synonym mnt6_G2Projective = "mnt6_g2_BaseField sw_projective"

definition mnt6_g2_group_params :: "mnt6_g2_BaseField sw_params" where
  "mnt6_g2_group_params = map_sw_params mnt6_fq3_abs mnt6_fq3_rep mnt6_g2_parameters"

text \<open>\<open>into_projective\<close> of an affine point of the configuration, and the generator.\<close>

definition mnt6_g2_into_proj :: "mnt6_G2Affine \<Rightarrow> mnt6_G2Projective" where
  "mnt6_g2_into_proj p = proj_from_affine (map_sw_affine mnt6_fq3_abs p)"

definition mnt6_g2_generator_proj :: "mnt6_G2Projective" where
  "mnt6_g2_generator_proj = mnt6_g2_into_proj (prime_subgroup_generator mnt6_g2_parameters)"

section \<open>Lemmas\<close>

lemma mnt6_canon_consts:
  "fq3_canon mnt6_Fq3_params mnt6_G2_COEFF_A" "fq3_canon mnt6_Fq3_params mnt6_G2_COEFF_B"
  "fq3_canon mnt6_Fq3_params mnt6_G2_GENERATOR_X" "fq3_canon mnt6_Fq3_params mnt6_G2_GENERATOR_Y"
  by (simp_all add: fq_canon_def mnt6_consts mnt6_G2_COEFF_B_def mnt6_G2_GENERATOR_X_def
      mnt6_G2_GENERATOR_Y_def mnt6_G2_GENERATOR_X_C0_def mnt6_G2_GENERATOR_X_C1_def
      mnt6_G2_GENERATOR_X_C2_def mnt6_G2_GENERATOR_Y_C0_def mnt6_G2_GENERATOR_Y_C1_def
      mnt6_G2_GENERATOR_Y_C2_def)

lemma mnt6_mul_by_a_canon: "fq3_canon mnt6_Fq3_params (mnt6_g2_mul_by_a x)"
  using mnt6_modulus_pos by (simp add: mnt6_mul_by_a_is_mul fq3_canon_closed)

lemma mnt6_fq3_rep_abs:
  "fq3_canon mnt6_Fq3_params x \<Longrightarrow> mnt6_fq3_rep (mnt6_fq3_abs x) = x"
  by (simp add: mnt6_fq3_abs_inverse)

lemmas mnt6_fq3_rep_simps =
  times_mnt6_fq3.rep_eq plus_mnt6_fq3.rep_eq mnt6_fq3_rep_inject [symmetric]
  mnt6_fq3_rep_abs mnt6_canon_consts mnt6_mul_by_a_canon fq3_canon_closed [OF mnt6_modulus_pos]

lemma mnt6_group_params_fields [simp]:
  "coeff_a mnt6_g2_group_params = mnt6_fq3_abs mnt6_G2_COEFF_A"
  "coeff_b mnt6_g2_group_params = mnt6_fq3_abs mnt6_G2_COEFF_B"
  "mul_by_a mnt6_g2_group_params = (\<lambda>x. mnt6_fq3_abs (mnt6_g2_mul_by_a (mnt6_fq3_rep x)))"
  by (simp_all add: mnt6_g2_group_params_def map_sw_params_def)

lemma mnt6_group_mul_by_a: "mul_by_a_is_mul mnt6_g2_group_params"
proof -
  have "mnt6_fq3_abs (mnt6_g2_mul_by_a (mnt6_fq3_rep x)) = mnt6_fq3_abs mnt6_G2_COEFF_A * x" for x
    using mnt6_fq3_rep [of x]
    by (simp add: mnt6_fq3_rep_simps mnt6_mul_by_a_is_mul)
  then show ?thesis
    by (simp add: mul_by_a_is_mul_def fun_eq_iff)
qed

text \<open>The inverse of \<open>2\<close> in the ring.\<close>

lemma mnt6_fq3_two_half:
  "mnt6_fq3_abs (Fq3 ((mnt6_Fq_MODULUS + 1) div 2) 0 0) +
   mnt6_fq3_abs (Fq3 ((mnt6_Fq_MODULUS + 1) div 2) 0 0) = 1"
proof -
  have c: "fq3_canon mnt6_Fq3_params (Fq3 ((mnt6_Fq_MODULUS + 1) div 2) 0 0)"
    by (simp add: fq_canon_def mnt6_consts)
  show ?thesis
    unfolding mnt6_fq3_rep_inject [symmetric]
    by (simp only: plus_mnt6_fq3.rep_eq one_mnt6_fq3.rep_eq mnt6_fq3_rep_abs [OF c])
      (simp add: mnt6_consts)
qed

text \<open>Curve membership over the ring is curve membership over the tower datatype.\<close>

lemma mnt6_ring_on_curve_iff:
  assumes "fq3_canon mnt6_Fq3_params x" and "fq3_canon mnt6_Fq3_params y"
  shows "is_on_curve ring_field_ops mnt6_g2_group_params
           (GroupAffine (mnt6_fq3_abs x) (mnt6_fq3_abs y) inf_flag) \<longleftrightarrow>
         is_on_curve (fq3_field_ops mnt6_Fq3_params) mnt6_g2_parameters (GroupAffine x y inf_flag)"
  using assms
  by (simp add: is_on_curve_def ring_field_ops_def fq3_field_ops_def Let_def
      mnt6_fq3_rep_simps)

lemma mnt6_generator_proj_on_curve:
  "proj_on_curve mnt6_g2_group_params mnt6_g2_generator_proj"
proof -
  have "is_on_curve ring_field_ops mnt6_g2_group_params
          (GroupAffine (mnt6_fq3_abs mnt6_G2_GENERATOR_X) (mnt6_fq3_abs mnt6_G2_GENERATOR_Y) False)"
    by (simp add: mnt6_ring_on_curve_iff mnt6_canon_consts mnt6_is_on_curve_unfold
        mnt6_generator_on_curve_eval)
  then show ?thesis
    unfolding mnt6_g2_generator_proj_def mnt6_g2_into_proj_def mnt6_generator_point
    by (simp only: sw_affine.map proj_from_affine_on_curve [OF mnt6_group_mul_by_a])
qed

text \<open>C23: doubling keeps every point of the MNT6-298 G2 curve on the curve, in Jacobian
  coordinates over \<open>Fq3\<close>, with the configuration's \<open>mul_by_a\<close> computing
  \<open>a ZZ\<^sup>2\<close>.\<close>

theorem mnt6_g2_double_on_curve:
  assumes "proj_on_curve mnt6_g2_group_params p"
  shows "proj_on_curve mnt6_g2_group_params (proj_double mnt6_g2_group_params p)"
  by (rule proj_double_on_curve [OF mnt6_group_mul_by_a assms])

text \<open>C25: addition of two points of the MNT6-298 G2 curve is again a point of the
  curve.\<close>

theorem mnt6_g2_add_on_curve:
  assumes "proj_on_curve mnt6_g2_group_params p" and "proj_on_curve mnt6_g2_group_params q"
  shows "proj_on_curve mnt6_g2_group_params (proj_add mnt6_g2_group_params p q)"
  by (rule proj_add_on_curve [OF mnt6_group_mul_by_a assms])

text \<open>C26: cofactor clearing (\<open>scale_by_cofactor\<close>, double-and-add over the bits of
  \<open>COFACTOR\<close>) is total on the MNT6-298 G2 curve and maps its points to points of the
  curve.\<close>

theorem mnt6_g2_scale_by_cofactor_on_curve:
  assumes "proj_on_curve mnt6_g2_group_params p"
  shows "proj_on_curve mnt6_g2_group_params
           (scale_by_cofactor (proj_group_ops mnt6_g2_group_params) mnt6_g2_parameters p)"
  unfolding scale_by_cofactor_def
  by (rule proj_mul_bits_on_curve [OF mnt6_group_mul_by_a assms])

text \<open>C28: in the MNT6-298 G2 group, mixed addition (\<open>add_assign_mixed\<close>, the step of
  \<open>mul_bits\<close>) computes the sum of the point and the lifted affine point, as full
  addition does; only when both are zero does it return its left operand unchanged.\<close>

theorem mnt6_g2_add_mixed_is_add:
  "proj_add_mixed mnt6_g2_group_params p q =
   (if proj_is_zero p \<and> ga_infinity q then p
    else proj_add mnt6_g2_group_params p (proj_from_affine q))"
  by (rule proj_add_mixed_eq_add)

text \<open>Witnesses of C23, C25 and C26 at the generator (in Jacobian coordinates) and its
  double.\<close>

theorem mnt6_g2_double_on_curve_witness:
  "proj_on_curve mnt6_g2_group_params (proj_double mnt6_g2_group_params mnt6_g2_generator_proj)"
  by (rule mnt6_g2_double_on_curve [OF mnt6_generator_proj_on_curve])

theorem mnt6_g2_add_on_curve_witness:
  "proj_on_curve mnt6_g2_group_params
     (proj_add mnt6_g2_group_params mnt6_g2_generator_proj
        (proj_double mnt6_g2_group_params mnt6_g2_generator_proj))"
  by (rule mnt6_g2_add_on_curve [OF mnt6_generator_proj_on_curve
        proj_double_on_curve [OF mnt6_group_mul_by_a mnt6_generator_proj_on_curve]])

theorem mnt6_g2_scale_by_cofactor_on_curve_witness:
  "proj_on_curve mnt6_g2_group_params
     (scale_by_cofactor (proj_group_ops mnt6_g2_group_params) mnt6_g2_parameters
        mnt6_g2_generator_proj)"
  by (rule mnt6_g2_scale_by_cofactor_on_curve [OF mnt6_generator_proj_on_curve])

text \<open>C20: on canonical coordinates, the Jacobian point \<open>into_projective(p)\<close> satisfies
  the projective curve invariant exactly when the code's affine check \<open>is_on_curve\<close>
  (with the configuration's \<open>mul_by_a\<close>, over the tower datatype) accepts \<open>p\<close>: the
  Jacobian model refines the configuration's curve.\<close>

theorem mnt6_g2_into_proj_on_curve_iff:
  assumes "fq3_canon mnt6_Fq3_params x" and "fq3_canon mnt6_Fq3_params y"
  shows "proj_on_curve mnt6_g2_group_params (mnt6_g2_into_proj (GroupAffine x y b)) \<longleftrightarrow>
         is_on_curve (fq3_field_ops mnt6_Fq3_params) mnt6_g2_parameters (GroupAffine x y b)"
  using mnt6_ring_on_curve_iff [OF assms, of b]
  by (simp add: mnt6_g2_into_proj_def proj_from_affine_on_curve [OF mnt6_group_mul_by_a]
      del: proj_from_affine.simps)

text \<open>Witness of C20 at the generator's coordinates.\<close>

theorem mnt6_g2_into_proj_on_curve_iff_witness:
  "proj_on_curve mnt6_g2_group_params
     (mnt6_g2_into_proj (GroupAffine mnt6_G2_GENERATOR_X mnt6_G2_GENERATOR_Y False))"
  using mnt6_g2_into_proj_on_curve_iff [OF mnt6_canon_consts(3,4), of False]
  by (simp add: mnt6_is_on_curve_unfold mnt6_generator_on_curve_eval)

text \<open>C29: the Jacobian group law of the MNT6-298 G2 configuration computes the affine
  chord-and-tangent law of \<open>y\<^sup>2 = x\<^sup>3 + A x + B\<close> over \<open>Fq3\<close>, \<open>A\<close> the \<open>COEFF_A\<close> of \<open>g2.rs\<close>:
  doubling (\<open>double_in_place\<close>, calling the configuration's \<open>mul_by_a\<close>) a Jacobian
  representative of \<open>(x, y)\<close> yields a representative of \<open>(l\<^sup>2 - 2x, l (x - x\<^sub>3) - y)\<close>
  for a tangent slope \<open>l\<close> (\<open>2 y l = 3 x\<^sup>2 + A\<close>), and adding (\<open>add_assign\<close>)
  representatives of two points with distinct abscissae yields a representative of their
  chord sum for the chord slope \<open>k\<close>.\<close>

theorem mnt6_g2_chord_tangent:
  "(2 * y * l = 3 * x\<^sup>2 + mnt6_fq3_abs mnt6_G2_COEFF_A \<longrightarrow>
      proj_double mnt6_g2_group_params (jacobian_repr (x, y) z) =
      jacobian_repr (affine_chord l x y x) (2 * y * z ^ 4)) \<and>
   (z1 \<noteq> 0 \<and> z2 \<noteq> 0 \<and> x1 * (z1 * z2)\<^sup>2 \<noteq> x2 * (z1 * z2)\<^sup>2 \<and> k * (x2 - x1) = y2 - y1 \<longrightarrow>
      proj_add mnt6_g2_group_params (jacobian_repr (x1, y1) z1) (jacobian_repr (x2, y2) z2) =
      jacobian_repr (affine_chord k x1 y1 x2) (2 * (z1 * z2) ^ 3 * (x2 - x1)))"
  using proj_double_tangent [OF mnt6_group_mul_by_a, of y l x z]
    proj_add_chord [of z1 z2 x1 x2 k y2 y1 mnt6_g2_group_params]
  by simp

text \<open>Witness of C29: the tangent at \<open>(0, 1)\<close>, of slope \<open>A / 2\<close>, and the chord through
  \<open>(0, 0)\<close> and \<open>(1, 1)\<close>, all with \<open>Z = 1\<close>.\<close>

theorem mnt6_g2_chord_tangent_witness:
  "proj_double mnt6_g2_group_params (jacobian_repr (0, 1) 1) =
     jacobian_repr
       (affine_chord (mnt6_fq3_abs mnt6_G2_COEFF_A * mnt6_fq3_abs (Fq3 ((mnt6_Fq_MODULUS + 1) div 2) 0 0))
          0 1 0) 2 \<and>
   proj_add mnt6_g2_group_params (jacobian_repr (0, 0) 1) (jacobian_repr (1, 1) 1) =
     jacobian_repr (affine_chord 1 0 0 1) 2"
proof -
  define h where "h = mnt6_fq3_abs (Fq3 ((mnt6_Fq_MODULUS + 1) div 2) 0 0)"
  have d: "2 * 1 * (mnt6_fq3_abs mnt6_G2_COEFF_A * h) = 3 * 0\<^sup>2 + mnt6_fq3_abs mnt6_G2_COEFF_A"
  proof -
    have "2 * 1 * (mnt6_fq3_abs mnt6_G2_COEFF_A * h) = mnt6_fq3_abs mnt6_G2_COEFF_A * (2 * h)"
      by (simp add: ac_simps)
    then show ?thesis
      using mnt6_fq3_two_half unfolding h_def [symmetric] mult_2 by simp
  qed
  have a: "(1::mnt6_fq3) \<noteq> 0 \<and> (1::mnt6_fq3) \<noteq> 0 \<and> 0 * (1 * 1)\<^sup>2 \<noteq> 1 * (1 * (1::mnt6_fq3))\<^sup>2 \<and>
      1 * (1 - 0) = 1 - (0::mnt6_fq3)"
    by simp
  have e: "2 * 1 * (1::mnt6_fq3) ^ 4 = 2" "2 * (1 * 1) ^ 3 * (1 - 0) = (2::mnt6_fq3)"
    by simp_all
  show ?thesis
    using mnt6_g2_chord_tangent [of 1 "mnt6_fq3_abs mnt6_G2_COEFF_A * h" 0 1 1 1 0 1 1 1 0,
        unfolded e] d a
    unfolding h_def by blast
qed

end
