(* ===== verification/Pairing.thy ===== *)
theory Pairing
  imports Prelude
begin

text \<open>
  The pairing engine the curve configurations feed (external to the sources: ark-ec's
  \<open>PairingEngine\<close> for the MNT families).  The Miller loop of
  one pair is a parameter \<open>ml\<close> into a commutative monoid (the target field \<open>Fqk\<close>);
  the batched loop multiplies the per-pair results, and the final exponentiation, a power
  \<open>f \<mapsto> f^e\<close> written inline, is applied once to the product.  \<open>pairing\<close> is the batch of one pair, as in
  ark-ec.
\<close>

definition miller_loop :: "('p \<Rightarrow> 'q \<Rightarrow> 'k::comm_monoid_mult) \<Rightarrow> ('p \<times> 'q) list \<Rightarrow> 'k" where
  "miller_loop ml i = foldl (\<lambda>res (p, q). res * ml p q) 1 i"

definition product_of_pairings ::
  "('p \<Rightarrow> 'q \<Rightarrow> 'k::comm_monoid_mult) \<Rightarrow> nat \<Rightarrow> ('p \<times> 'q) list \<Rightarrow> 'k" where
  "product_of_pairings ml e i = miller_loop ml i ^ e"

definition pairing :: "('p \<Rightarrow> 'q \<Rightarrow> 'k::comm_monoid_mult) \<Rightarrow> nat \<Rightarrow> 'p \<Rightarrow> 'q \<Rightarrow> 'k" where
  "pairing ml e p q = product_of_pairings ml e [(p, q)]"

section \<open>Lemmas\<close>

lemma miller_loop_acc:
  "foldl (\<lambda>res (p, q). res * ml p q) a i = a * prod_list (map (\<lambda>(p, q). ml p q) i)"
  by (induction i arbitrary: a) (auto simp: mult.assoc)

lemma product_of_pairings_prod:
  "product_of_pairings ml e i = prod_list (map (\<lambda>(p, q). pairing ml e p q) i)"
proof (induction i)
  case Nil
  then show ?case
    by (simp add: product_of_pairings_def miller_loop_def)
next
  case (Cons x i)
  then show ?case
    by (cases x) (simp add: product_of_pairings_def pairing_def
        miller_loop_def miller_loop_acc power_mult_distrib)
qed

end
