(* ===== verification/Curve_Tests.thy ===== *)
theory Curve_Tests
  imports Sw_Curve Pairing
begin

text \<open>
  The tests of \<open>src/curves-0.3.0/mnt6_753/src/curves/tests.rs\<close> as predicates: each test
  function is the conjunction of its assertions, stated over the interfaces of
  \<open>Sw_Curve\<close> and \<open>Pairing\<close> so that it can be run on any curve configuration.  The
  templates \<open>curve_tests\<close>, \<open>sw_tests\<close> and \<open>group_test\<close> belong to an external crate
  and are not modelled: the group tests take \<open>group_test\<close> as a parameter and a random
  generator as an explicit state.  \<open>into_g\<close> maps an affine point into the group (\<open>into_projective\<close>),
  \<open>r\<close> is the limb slice of the scalar field's characteristic.
\<close>

text \<open>\<open>test_g1_projective_group\<close>, \<open>test_g2_projective_group\<close>: two points drawn in
  turn from the test generator (\<open>rng.gen()\<close> advances its state, so \<open>b\<close> is drawn from
  the state \<open>a\<close> left), then the external template \<open>group_test(a, b)\<close>.\<close>

definition test_g1_projective_group ::
  "('r \<Rightarrow> 'g \<times> 'r) \<Rightarrow> ('g \<Rightarrow> 'g \<Rightarrow> bool) \<Rightarrow> 'r \<Rightarrow> bool" where
  "test_g1_projective_group gen group_test rng =
     (let (a, rng) = gen rng; (b, rng) = gen rng in group_test a b)"

definition test_g2_projective_group ::
  "('r \<Rightarrow> 'g \<times> 'r) \<Rightarrow> ('g \<Rightarrow> 'g \<Rightarrow> bool) \<Rightarrow> 'r \<Rightarrow> bool" where
  "test_g2_projective_group gen group_test rng =
     (let (a, rng) = gen rng; (b, rng) = gen rng in group_test a b)"

definition test_g1_generator ::
  "'f field_ops \<Rightarrow> 'f sw_params \<Rightarrow> 'g group_ops \<Rightarrow> ('f sw_affine \<Rightarrow> 'g) \<Rightarrow> u64 list \<Rightarrow> bool" where
  "test_g1_generator F C G into_g r \<longleftrightarrow>
     (let generator = prime_subgroup_generator C
      in is_on_curve F C generator \<and>
         is_in_correct_subgroup_assuming_on_curve G r (into_g generator))"

definition test_g2_generator ::
  "'f field_ops \<Rightarrow> 'f sw_params \<Rightarrow> 'g group_ops \<Rightarrow> ('f sw_affine \<Rightarrow> 'g) \<Rightarrow> u64 list \<Rightarrow> bool" where
  "test_g2_generator F C G into_g r \<longleftrightarrow>
     (let generator = prime_subgroup_generator C
      in is_on_curve F C generator \<and>
         is_in_correct_subgroup_assuming_on_curve G r (into_g generator))"

text \<open>\<open>test_bilinearity\<close>: with \<open>sa = s a\<close>, \<open>sb = s b\<close>, the three values
  \<open>e(sa, b)\<close>, \<open>e(a, sb)\<close>, \<open>e(a, b)^s\<close> agree, none is one, and each has order
  dividing \<open>r\<close> (\<open>Fr::characteristic()\<close>).\<close>

definition test_bilinearity ::
  "('p \<Rightarrow> 'q \<Rightarrow> 'k::comm_monoid_mult) \<Rightarrow> nat \<Rightarrow> (nat \<Rightarrow> 'p \<Rightarrow> 'p) \<Rightarrow> (nat \<Rightarrow> 'q \<Rightarrow> 'q) \<Rightarrow>
   nat \<Rightarrow> 'p \<Rightarrow> 'q \<Rightarrow> nat \<Rightarrow> bool" where
  "test_bilinearity ml e mul1 mul2 r a b s \<longleftrightarrow>
     (let sa = mul1 s a; sb = mul2 s b;
          ans1 = pairing ml e sa b; ans2 = pairing ml e a sb; ans3 = pairing ml e a b ^ s
      in ans1 = ans2 \<and> ans2 = ans3 \<and> ans1 \<noteq> 1 \<and> ans2 \<noteq> 1 \<and> ans3 \<noteq> 1 \<and>
         ans1 ^ r = 1 \<and> ans2 ^ r = 1 \<and> ans3 ^ r = 1)"

text \<open>\<open>test_product_of_pairings\<close>: \<open>pairing(a, b) * pairing(c, d)\<close> against
  \<open>product_of_pairings(&[(a, b), (c, d)])\<close>.\<close>

definition test_product_of_pairings ::
  "('p \<Rightarrow> 'q \<Rightarrow> 'k::comm_monoid_mult) \<Rightarrow> nat \<Rightarrow> 'p \<Rightarrow> 'q \<Rightarrow> 'p \<Rightarrow> 'q \<Rightarrow> bool" where
  "test_product_of_pairings ml e a b c d \<longleftrightarrow>
     pairing ml e a b * pairing ml e c d = product_of_pairings ml e [(a, b), (c, d)]"

section \<open>Lemmas\<close>

lemma pairing_single: "pairing ml e p q = ml p q ^ e"
  by (simp add: pairing_def product_of_pairings_def miller_loop_def)

end
