(* ===== verification/Spec2Isabelle.thy ===== *)
theory Spec2Isabelle
  imports Mnt4_298_G2_Group Mnt6_298_G2_Group Curve_Tests
begin

text \<open>
  \<^bold>\<open>A verification library for the MNT4-298 and MNT6-298 G2 curve configurations of
  arkworks' \<open>curves-0.3.0\<close>.\<close>

  \<^bold>\<open>The program.\<close> The sources are two curve configurations and one test file:
  \<^item> \<open>src/curves-0.3.0/mnt4_298/src/curves/g2.rs\<close>: the G2 group of MNT4-298, a
    short-Weierstrass curve over \<open>Fq2 = Fq[x]/(x\<^sup>2 - 17)\<close>; its \<open>SWModelParameters\<close>
    (\<open>COEFF_A\<close>, \<open>COEFF_B\<close>, \<open>COFACTOR\<close> as \<open>u64\<close> limbs, \<open>COFACTOR_INV\<close>, the generator)
    and its optimised \<open>mul_by_a\<close> with the precomputed \<open>MUL_BY_A_C0/C1\<close>;
  \<^item> \<open>src/curves-0.3.0/mnt6_298/src/curves/g2.rs\<close>: the same for MNT6-298 over
    \<open>Fq3 = Fq[x]/(x\<^sup>3 - 5)\<close>, whose \<open>mul_by_a\<close> rotates coefficients;
  \<^item> \<open>src/curves-0.3.0/mnt6_753/src/curves/tests.rs\<close>: the curve, generator, bilinearity
    and batched-pairing tests.
  The configurations are consumed by collaborators outside the sources: the field tower
  (ark-ff), the generic group (ark-ec's short-Weierstrass model, which calls \<open>mul_by_a\<close>
  in its curve check and reads \<open>COFACTOR\<close> bit by bit to clear cofactors) and the pairing
  engine.  They are modelled from the design and the crate's definitions, as far as the
  properties of the configurations need them.

  \<^bold>\<open>The theories.\<close>
  \<^item> \<open>Prelude\<close>: the types \<open>fq\<close> (a residue as \<open>int\<close>) and \<open>u64\<close> (\<open>64 word\<close>), the
    collections \<open>residue_simps\<close> and \<open>curve_consts\<close>, lemmas on \<open>mod\<close> and positional sums.
  \<^item> \<open>Field_Tower\<close> (ark-ff): \<open>fq_mul\<close> modulo \<open>q\<close>; the datatypes \<open>fq2\<close>,
    \<open>fq3\<close> with the source's fields \<open>c0, c1(, c2)\<close> and their addition, negation and
    multiplication over an \<open>ext_params\<close> record (modulus, non-residue); the abstract
    specification \<open>tower_mul\<close>, multiplication in \<open>Fq[x]/(x\<^sup>n - \<beta>)\<close> on coefficient lists,
    and the refinement lemmas \<open>fq2_mul_tower\<close>, \<open>fq3_mul_tower\<close>; the ring laws
    (associativity, commutativity, distributivity modulo \<open>q\<close>), proved as polynomial
    identities of the unreduced operations carried through the reduction; closure of the
    canonical residues and the additive group and unit laws on them.
  \<^item> \<open>Big_Integer\<close> (ark-ff's \<open>BigInteger\<close>, \<open>BitIteratorBE\<close>): \<open>limbs_value\<close> of a
    little-endian limb slice and the encoding \<open>to_limbs\<close>; the iterator as its state
    \<open>bit_iter\<close> (slice and counter) with \<open>bit_iter_new\<close> and \<open>bit_iter_next\<close>, drained by
    \<open>bit_iter_collect\<close> (a \<open>function\<close> whose termination is the counter's decrease) and
    stepped by \<open>bit_iter_advance\<close>; \<open>bit_iterator_be\<close> is the drained sequence of
    \<open>new(s)\<close>, shown equal to its specification \<open>bits_from\<close>.  Proved: the bound, both
    round trips, that the drain yields exactly the counter's number of bits and that the
    bit stream denotes \<open>limbs_value\<close>.
  \<^item> \<open>Sw_Curve\<close> (ark-ec): the trait \<open>SWModelParameters\<close> as the record \<open>sw_params\<close>, the
    interfaces \<open>field_ops\<close> and \<open>group_ops\<close> (zero, the \<open>is_zero\<close> test, addition,
    doubling), affine points, \<open>is_on_curve\<close> (with the
    \<open>mul_by_a\<close> hook), \<open>mul_bits\<close> (double-and-add skipping leading zeros),
    \<open>scale_by_cofactor\<close>, the subgroup check, and the specifications \<open>on_weierstrass\<close> and
    \<open>scalar_mul\<close>; \<open>mul_bits\<close> is proved to compute \<open>scalar_mul\<close> of the stream's value in
    any group with associative addition, a right identity and \<open>double x = x + x\<close>.
  \<^item> \<open>Mnt4_298_G2\<close>, \<open>Mnt6_298_G2\<close>: the crate constants each \<open>g2.rs\<close> imports, then one
    definition per constant of \<open>g2.rs\<close>, \<open>mnt4_g2_mul_by_a\<close>/\<open>mnt6_g2_mul_by_a\<close>, and the
    \<open>impl\<close> block as a value \<open>mnt4_g2_parameters\<close>/\<open>mnt6_g2_parameters\<close> of
    \<open>sw_params\<close>.  Their theorems: \<open>mul_by_a\<close> is multiplication by \<open>COEFF_A\<close> in the
    quotient ring (C1, C2); the generator passes the curve
    check (C3, C4; computed in the kernel by \<open>code_simp\<close>); \<open>h h\<^sup>-\<^sup>1 = 1 mod r\<close> (C5, C6);
    the limbs are the documented decimal cofactor (C7, C8); cofactor clearing multiplies by
    it (C9, C10); the curve check is the Weierstrass equation (C11, C12); cofactor clearing's loop
    over \<open>BitIteratorBE::new(COFACTOR)\<close> terminates after exactly 640 bits that denote
    the cofactor (C13) and the MNT4 iterator is exhausted after 320 steps (C14);
    \<open>COEFF_A = a X\<^sup>2\<close> and \<open>COEFF_B = b X\<^sup>3\<close> for the tower generator \<open>X\<close> (C16, C17;
    for MNT4 this is \<open>17 b\<close>, so the comment's non-residue 13 is stale); \<open>COFACTOR * r\<close>
    is the order \<open>q^k + 1 + t\<^sub>k\<close> of the twist, from the trace \<open>t = q + 1 - r\<close> of G1
    (C18, C19).  The lemma \<open>mnt6_g2_mul_by_a_not_spec_formula\<close> records that the
    design's cubic formula is not the code's.
  \<^item> \<open>Sw_Jacobian\<close> (ark-ec's \<open>short_weierstrass_jacobian\<close>): \<open>GroupProjective\<close>
    points, \<open>zero\<close>/\<open>is_zero\<close>, \<open>double_in_place\<close> (both formulas, the general one
    calling \<open>mul_by_a\<close>), \<open>add_assign_mixed\<close>, \<open>add_assign\<close>, and the conversions
    from and into affine coordinates, generic over a \<open>comm_ring_1\<close> (a field for
    \<open>into_affine\<close>).  Proved: doubling multiplies the curve polynomial
    \<open>Y\<^sup>2 - X\<^sup>3 - a X Z\<^sup>4 - b Z\<^sup>6\<close> by \<open>64 Y\<^sup>6\<close> and addition maps it into the ideal of its
    inputs' polynomials (explicit cofactors), so both keep points on the curve whenever
    \<open>mul_by_a\<close> multiplies by \<open>COEFF_A\<close>, and so does every \<open>mul_bits\<close>; mixed
    addition is addition of the lifted point; \<open>into_affine\<close> maps curve points to curve
    points and inverts \<open>From<GroupAffine>\<close>.  Against the specification
    \<open>affine_chord\<close> (the chord-and-tangent construction with its slope as a parameter,
    so that no division is needed) and \<open>jacobian_repr\<close> (the representative
    \<open>(x Z\<^sup>2, y Z\<^sup>3, Z)\<close> of \<open>(x, y)\<close>): doubling computes the tangent construction and
    addition of points with distinct abscissae the chord construction, on every
    representative.
  \<^item> \<open>Mnt4_298_G2_Group\<close>, \<open>Mnt6_298_G2_Group\<close>: the canonical tower elements as the
    ring types \<open>mnt4_fq2\<close>, \<open>mnt6_fq3\<close> (\<open>typedef\<close> with the tower operations lifted,
    an \<open>instantiation\<close> of \<open>comm_ring_1\<close>), \<open>G2Affine\<close>, \<open>G2Projective\<close>, the
    configuration over the ring (\<open>mnt4_g2_group_params\<close>: \<open>mul_by_a\<close> is the code's,
    read through the representation), and curve membership over the ring shown equal to
    the check over the datatype.  Their theorems: cofactor clearing fixes the point
    at infinity and a zero scalar gives it (C15); on canonical coordinates the Jacobian
    invariant of \<open>into_projective(p)\<close> is exactly the code's \<open>is_on_curve\<close> (C20,
    C21); doubling and addition keep the G2 curve (C22 to C25), cofactor clearing is total
    and stays on the curve (C26), every multiple of the MNT4 generator is on the curve
    (C27), mixed addition is addition (C28), and the Jacobian law with the configuration's
    \<open>mul_by_a\<close> computes the affine chord-and-tangent law of the curve with the
    configuration's \<open>COEFF_A\<close> (C29, C30).
  \<^item> \<open>Pairing\<close> (ark-ec's \<open>PairingEngine\<close>): the batched pairing applies one final
    exponentiation (a power) to the product of Miller loops.
  \<^item> \<open>Curve_Tests\<close>: the tests of \<open>tests.rs\<close> as predicates over the interfaces; the
    projective group tests draw their two points from an explicit generator state.
  \<^item> This theory imports all of them and holds this documentation; the properties that
    combine components (configuration, tower ring, Jacobian law, bit iterator) are stated
    in the group theories.

  \<^bold>\<open>Bounds and fuel.\<close> Every recursion is structural (over lists, limbs or a counter)
  except the drain of \<open>BitIteratorBE\<close>, a \<open>function\<close> terminating by the measure
  \<open>bi_n\<close> (each \<open>Some\<close> step lowers it by one), so no fuel is needed and every
  definition is total and executable; concrete constants are
  checked by \<open>simp\<close> and \<open>code_simp\<close>.  Field elements are unbounded \<open>int\<close>s reduced
  \<open>mod q\<close> after each operation; limbs are \<open>64 word\<close>.

  \<^bold>\<open>Not modelled.\<close> Montgomery representation and the ark-ff arithmetic routines (the
  model computes the same residues); inversion in the towers, hence \<open>into_affine\<close> on
  the MNT rings (it is proved over any field, and proving that \<open>Fq2\<close>, \<open>Fq3\<close> are
  fields needs the primality of 298-bit moduli, beyond kernel evaluation); negation and
  equality of projective points; the group axioms of the Jacobian law (associativity of
  \<open>add-2007-bl\<close>; the theorems that need them take them as hypotheses); the
  \<open>G2Prepared\<close> precomputation, the Miller loop and final exponentiation internals,
  serialization and sampling (the group tests take the sampler as a parameter), the
  external test templates \<open>curve_tests\<close>, \<open>sw_tests\<close>, \<open>group_test\<close> (hence
  \<open>test_g1/g2_projective_curve\<close>, which only call them), and the MNT6-753 constants
  the tests use; the tests are modelled as predicates but carry no theorem, since with
  the Miller loop, the final exponentiation and the MNT6-753 configuration left out
  nothing proved of them would be specific to the code.  \<open>r \<cdot> G = 0\<close> for the generators
  is out of reach of kernel evaluation (a 298-bit double-and-add over \<open>Fq3\<close>).  The
  design's contract for points built from untrusted coordinates (the error kinds
  not-on-curve, not-in-subgroup, malformed-field-element) has no code under \<open>src/\<close>;
  its checks are the curve check (C11, C12) and the subgroup check of \<open>Sw_Curve\<close>.

  \<^bold>\<open>Plan for later work.\<close> Projective negation and equality with their laws; that
  \<open>mul_bits\<close> over the Jacobian group agrees with the affine group law on the MNT rings
  up to projective equality (the chord and tangent steps are C29, C30); the G1 configurations and the MNT4/MNT6 cycle of moduli.
\<close>

end
